theory Spec2Isabelle
  imports Complex_Main "HOL-Library.AList"
begin

section \<open>JavaScript values\<close>

text \<open>
  Every value the broker handles comes out of \<^verbatim>\<open>JSON.parse\<close> or is read from one that
  did: \<^verbatim>\<open>undefined\<close> (a field that is absent), \<^verbatim>\<open>null\<close>, booleans, numbers, strings,
  arrays and plain objects. A number is the integer value of a double (\<open>JNum i\<close>; a
  fraction is not represented). An object is the list of its own enumerable properties
  in enumeration order. \<open>JNative n\<close> is the built-in member \<open>n\<close> that a value inherits
  from its prototype (a function; for \<^verbatim>\<open>__proto__\<close> the object \<^verbatim>\<open>Object.prototype\<close>
  itself): a read such as \<^verbatim>\<open>capabilities[platform]\<close> or \<^verbatim>\<open>collectionData[key]\<close> reaches it
  when the object has no own property of that name.
\<close>

datatype jsval =
    JUndefined
  | JNull
  | JBool bool
  | JNum int
  | JStr string
  | JArr "jsval list"
  | JObj "(string \<times> jsval) list"
  | JNative string

text \<open>
  What the code throws. The message of an \<open>Error\<close> is the one the source builds; the
  message of a \<open>TypeError\<close> is the text V8 gives it, which names the property and the
  expression of the source. The message of the \<open>SyntaxError\<close> for a frame that is not
  JSON depends on the frame, which is not represented: one text stands for them all.
\<close>

datatype js_error = Error string | TypeError string | SyntaxError string

fun message :: "js_error \<Rightarrow> string" where
  "message (Error m) = m"
| "message (TypeError m) = m"
| "message (SyntaxError m) = m"

type_synonym 'a outcome = "js_error + 'a"

fun truthy :: "jsval \<Rightarrow> bool" where
  "truthy JUndefined = False"
| "truthy JNull = False"
| "truthy (JBool b) = b"
| "truthy (JNum n) = (n \<noteq> 0)"
| "truthy (JStr s) = (s \<noteq> [])"
| "truthy (JArr xs) = True"
| "truthy (JObj ps) = True"
| "truthy (JNative n) = True"

text \<open>\<^verbatim>\<open>a || b\<close>\<close>

definition js_or :: "jsval \<Rightarrow> jsval \<Rightarrow> jsval" where
  "js_or a b = (if truthy a then a else b)"

subsection \<open>Numbers and strings\<close>

definition digit_char :: "nat \<Rightarrow> char" where
  "digit_char d = ''0123456789'' ! d"

fun dec :: "nat \<Rightarrow> string" where
  "dec n = (if n < 10 then [digit_char n] else dec (n div 10) @ [digit_char (n mod 10)])"

declare dec.simps [simp del]

text \<open>
  \<^verbatim>\<open>Number.prototype.toString\<close> on an integer. Below \<open>2^53\<close> every integer is a double and
  is written with all its digits. From there on \<open>to_double\<close> gives the double a numeral
  is read as (the nearest, ties to the even mantissa), and the digits written are the
  shortest that read back as this double (\<open>shortest\<close>, trying one digit, then two, and
  so on; of two candidates the nearer, then the even one), filled with zeros below
  \<open>10^21\<close> and in exponent form from \<open>10^21\<close>. A numeral that rounds beyond the largest
  double is \<^verbatim>\<open>Infinity\<close>.
\<close>

fun expo :: "nat \<Rightarrow> nat" where
  "expo a = (if a < 2 ^ 53 then 0 else Suc (expo (a div 2)))"

declare expo.simps [simp del]

definition to_double :: "nat \<Rightarrow> nat" where
  "to_double a =
     (let e = expo a; q = a div 2 ^ e; r = a mod 2 ^ e
      in (if 2 ^ e < 2 * r \<or> (2 * r = 2 ^ e \<and> odd q) then q + 1 else q) * 2 ^ e)"

fun shortest :: "nat \<Rightarrow> nat \<Rightarrow> nat" where
  "shortest d p =
     (if p \<le> 1 then d
      else (let lo = d div p * p; hi = lo + p
            in if to_double lo = d \<and> to_double hi = d then
                 (if d - lo < hi - d then lo
                  else if hi - d < d - lo then hi
                  else if even (d div p) then lo else hi)
               else if to_double lo = d then lo
               else if to_double hi = d then hi
               else shortest d (p div 10)))"

declare shortest.simps [simp del]

definition exponent_form :: "string \<Rightarrow> string" where
  "exponent_form ds =
     (let m = rev (dropWhile (\<lambda>c. c = CHR ''0'') (rev ds))
      in hd m # (if tl m = [] then [] else CHR ''.'' # tl m) @ ''e+'' @ dec (length ds - 1))"

definition nat_to_string :: "nat \<Rightarrow> string" where
  "nat_to_string a =
     (if a < 2 ^ 53 then dec a
      else (let d = to_double a
            in if 2 ^ 1024 \<le> d then ''Infinity''
               else (let ds = dec (shortest d (10 ^ (length (dec d) - 1)))
                     in if length ds \<le> 21 then ds else exponent_form ds)))"

definition num_to_string :: "int \<Rightarrow> string" where
  "num_to_string i = (if i < 0 then CHR ''-'' # nat_to_string (nat (- i)) else nat_to_string (nat i))"

definition is_digit :: "char \<Rightarrow> bool" where
  "is_digit c = (48 \<le> (of_char c :: nat) \<and> (of_char c :: nat) \<le> 57)"

definition str_to_nat :: "string \<Rightarrow> nat" where
  "str_to_nat s = foldl (\<lambda>a c. 10 * a + ((of_char c :: nat) - 48)) 0 s"

text \<open>
  An array index is the canonical decimal form (digits only, no leading zero) of an
  integer below \<open>2^32 - 1\<close>; such
  property names are enumerated first, in ascending order, and name the elements of an
  array and the characters of a string.
\<close>

definition array_index :: "string \<Rightarrow> nat option" where
  "array_index s =
     (if s \<noteq> [] \<and> list_all is_digit s \<and> (hd s \<noteq> CHR ''0'' \<or> length s = 1)
         \<and> str_to_nat s < 4294967295
      then Some (str_to_nat s) else None)"

text \<open>
  The members of \<^verbatim>\<open>Object.prototype\<close>. All are functions but \<^verbatim>\<open>__proto__\<close>, an accessor
  whose getter returns the prototype of the object it is read on. An array has the
  members of \<^verbatim>\<open>Array.prototype\<close> (ECMAScript 2023) before them.
\<close>

definition object_prototype_names :: "string list" where
  "object_prototype_names =
     [''constructor'', ''__defineGetter__'', ''__defineSetter__'', ''hasOwnProperty'',
      ''__lookupGetter__'', ''__lookupSetter__'', ''isPrototypeOf'', ''propertyIsEnumerable'',
      ''toString'', ''valueOf'', ''__proto__'', ''toLocaleString'']"

definition inherited :: "string \<Rightarrow> jsval" where
  "inherited k = (if k \<in> set object_prototype_names then JNative k else JUndefined)"

definition array_prototype_names :: "string list" where
  "array_prototype_names =
     [''constructor'', ''at'', ''concat'', ''copyWithin'', ''fill'', ''find'', ''findIndex'',
      ''findLast'', ''findLastIndex'', ''lastIndexOf'', ''pop'', ''push'', ''reverse'', ''shift'',
      ''unshift'', ''slice'', ''sort'', ''splice'', ''includes'', ''indexOf'', ''join'', ''keys'',
      ''entries'', ''values'', ''forEach'', ''filter'', ''flat'', ''flatMap'', ''map'', ''every'',
      ''some'', ''reduce'', ''reduceRight'', ''toLocaleString'', ''toString'', ''toReversed'',
      ''toSorted'', ''toSpliced'', ''with'']"

definition array_inherited :: "string \<Rightarrow> jsval" where
  "array_inherited k = (if k \<in> set array_prototype_names then JNative k else inherited k)"

text \<open>
  \<^verbatim>\<open>String(v)\<close>, as a template literal applies it. A plain object has the inherited
  \<^verbatim>\<open>toString\<close> unless an own property of that name hides it; a value parsed from JSON
  is never callable, so the conversion then throws. \<^verbatim>\<open>Array.prototype.join\<close> writes
  \<^verbatim>\<open>null\<close> and \<^verbatim>\<open>undefined\<close> elements as the empty string. The function that
  \<^verbatim>\<open>Object.prototype\<close> holds as \<^verbatim>\<open>constructor\<close> is named \<^verbatim>\<open>Object\<close>.
\<close>

fun js_to_string :: "jsval \<Rightarrow> string outcome"
  and js_join :: "jsval list \<Rightarrow> string outcome" where
  "js_to_string JUndefined = Inr ''undefined''"
| "js_to_string JNull = Inr ''null''"
| "js_to_string (JBool b) = Inr (if b then ''true'' else ''false'')"
| "js_to_string (JNum n) = Inr (num_to_string n)"
| "js_to_string (JStr s) = Inr s"
| "js_to_string (JArr xs) = js_join xs"
| "js_to_string (JObj ps) =
     (if ''toString'' \<in> set (map fst ps)
      then Inl (TypeError ''Cannot convert object to primitive value'')
      else Inr ''[object Object]'')"
| "js_to_string (JNative n) =
     Inr (if n = ''__proto__'' then ''[object Object]''
          else ''function '' @ (if n = ''constructor'' then ''Object'' else n) @ ''() { [native code] }'')"
| "js_join [] = Inr []"
| "js_join (x # xs) =
     (case (if x = JNull \<or> x = JUndefined then Inr [] else js_to_string x) of
        Inl e \<Rightarrow> Inl e
      | Inr s \<Rightarrow>
          (if xs = [] then Inr s
           else (case js_join xs of Inl e \<Rightarrow> Inl e | Inr r \<Rightarrow> Inr (s @ '','' @ r))))"

subsection \<open>Properties\<close>

text \<open>
  \<^verbatim>\<open>v[k]\<close> for a property name \<open>k\<close>: a \<open>TypeError\<close> on \<^verbatim>\<open>undefined\<close> and \<^verbatim>\<open>null\<close>;
  on any other value \<open>js_prop v k\<close>, the own property where there is one, the member
  inherited from the prototype otherwise. The members of \<^verbatim>\<open>String.prototype\<close> and of
  the other wrappers are not listed: the code reads a primitive only under a fixed field
  name that none of them has, or inside a query comparison, where a function and
  \<^verbatim>\<open>undefined\<close> both differ from every JSON value.
\<close>

definition obj_read :: "(string \<times> jsval) list \<Rightarrow> string \<Rightarrow> jsval" where
  "obj_read ps k = (case map_of ps k of Some v \<Rightarrow> v | None \<Rightarrow> inherited k)"

fun js_prop :: "jsval \<Rightarrow> string \<Rightarrow> jsval" where
  "js_prop (JObj ps) k = obj_read ps k"
| "js_prop (JArr xs) k =
     (case array_index k of
        Some n \<Rightarrow> (if n < length xs then xs ! n else array_inherited k)
      | None \<Rightarrow> (if k = ''length'' then JNum (int (length xs)) else array_inherited k))"
| "js_prop (JStr s) k =
     (case array_index k of
        Some n \<Rightarrow> (if n < length s then JStr [s ! n] else inherited k)
      | None \<Rightarrow> (if k = ''length'' then JNum (int (length s)) else inherited k))"
| "js_prop v k = inherited k"

definition nullish :: "jsval \<Rightarrow> bool" where
  "nullish v = (v = JUndefined \<or> v = JNull)"

text \<open>The name of a property as an error message quotes it.\<close>

definition quoted :: "string \<Rightarrow> string" where
  "quoted k = CHR 0x27 # k @ [CHR 0x27]"

definition cannot_read :: "jsval \<Rightarrow> string \<Rightarrow> js_error" where
  "cannot_read v k =
     TypeError (''Cannot read properties of '' @ (if v = JNull then ''null'' else ''undefined'')
                @ '' (reading '' @ quoted k @ '')'')"

definition js_get :: "jsval \<Rightarrow> string \<Rightarrow> jsval outcome" where
  "js_get v k = (if nullish v then Inl (cannot_read v k) else Inr (js_prop v k))"

text \<open>
  Own enumerable properties in enumeration order: what \<^verbatim>\<open>Object.entries\<close> lists and
  what a spread \<^verbatim>\<open>{...v}\<close> copies.
\<close>

fun own_entries :: "jsval \<Rightarrow> (string \<times> jsval) list" where
  "own_entries (JObj ps) = ps"
| "own_entries (JArr xs) = map (\<lambda>i. (dec i, xs ! i)) [0..<length xs]"
| "own_entries (JStr s) = map (\<lambda>i. (dec i, JStr [s ! i])) [0..<length s]"
| "own_entries v = []"

definition object_entries :: "jsval \<Rightarrow> (string \<times> jsval) list outcome" where
  "object_entries v =
     (if nullish v
      then Inl (TypeError ''Cannot convert undefined or null to object'')
      else Inr (own_entries v))"

text \<open>
  Defining an own property: the value is replaced in place when the name exists; a new
  array index goes among the indices in ascending order, any other new name at the end.
\<close>

fun insert_index :: "nat \<Rightarrow> string \<Rightarrow> jsval \<Rightarrow> (string \<times> jsval) list \<Rightarrow> (string \<times> jsval) list" where
  "insert_index n k v [] = [(k, v)]"
| "insert_index n k v (p # ps) =
     (case array_index (fst p) of
        Some m \<Rightarrow> (if m < n then p # insert_index n k v ps else (k, v) # p # ps)
      | None \<Rightarrow> (k, v) # p # ps)"

definition obj_define :: "string \<Rightarrow> jsval \<Rightarrow> (string \<times> jsval) list \<Rightarrow> (string \<times> jsval) list" where
  "obj_define k v ps =
     (if k \<in> set (map fst ps) then AList.update k v ps
      else (case array_index k of Some n \<Rightarrow> insert_index n k v ps | None \<Rightarrow> ps @ [(k, v)]))"

text \<open>
  An object the code writes to (the collection objects of the browser adapter, created
  as \<^verbatim>\<open>{}\<close>): its own properties and its prototype, \<open>JNative ''__proto__''\<close> standing for
  \<^verbatim>\<open>Object.prototype\<close>. The prototype matters because \<^verbatim>\<open>o[k] = v\<close> with the name
  \<^verbatim>\<open>__proto__\<close> reaches the inherited setter, which makes \<open>v\<close> the prototype when \<open>v\<close> is
  an object or \<^verbatim>\<open>null\<close> and does nothing otherwise; no own property is created.
  \<open>proto_accessor p\<close> says that the accessor is still found along a chain that starts at
  \<open>p\<close>: not after \<^verbatim>\<open>null\<close>, and not behind an own property \<^verbatim>\<open>__proto__\<close>, which
  \<^verbatim>\<open>JSON.parse\<close> creates as a plain one. Without the accessor the name is a name like
  any other.
\<close>

record js_object =
  own :: "(string \<times> jsval) list"
  proto :: jsval

definition new_object :: js_object where
  "new_object = \<lparr>own = [], proto = JNative ''__proto__''\<rparr>"

fun proto_accessor :: "jsval \<Rightarrow> bool" where
  "proto_accessor JNull = False"
| "proto_accessor (JObj ps) = (''__proto__'' \<notin> set (map fst ps))"
| "proto_accessor v = True"

text \<open>\<^verbatim>\<open>o[k]\<close>: the own property, or what the prototype has under the name.\<close>

definition object_read :: "js_object \<Rightarrow> string \<Rightarrow> jsval" where
  "object_read obj k =
     (case map_of (own obj) k of
        Some v \<Rightarrow> v
      | None \<Rightarrow>
          (if proto obj = JNull then JUndefined
           else if k = ''__proto__'' \<and> proto_accessor (proto obj) then proto obj
           else js_prop (proto obj) k))"

text \<open>\<^verbatim>\<open>o[k] = v\<close>\<close>

fun is_object :: "jsval \<Rightarrow> bool" where
  "is_object (JObj ps) = True"
| "is_object (JArr xs) = True"
| "is_object v = False"

definition obj_assign :: "string \<Rightarrow> jsval \<Rightarrow> js_object \<Rightarrow> js_object" where
  "obj_assign k v obj =
     (if k = ''__proto__'' \<and> k \<notin> set (map fst (own obj)) \<and> proto_accessor (proto obj)
      then (if is_object v \<or> v = JNull then obj\<lparr>proto := v\<rparr> else obj)
      else obj\<lparr>own := obj_define k v (own obj)\<rparr>)"

text \<open>\<^verbatim>\<open>delete o[k]\<close>\<close>

definition obj_delete :: "string \<Rightarrow> js_object \<Rightarrow> js_object" where
  "obj_delete k obj = obj\<lparr>own := filter (\<lambda>p. fst p \<noteq> k) (own obj)\<rparr>"

text \<open>The object literal \<^verbatim>\<open>{ key, ...value }\<close>.\<close>

definition key_spread :: "jsval \<Rightarrow> jsval \<Rightarrow> jsval" where
  "key_spread key v = JObj (foldl (\<lambda>ps p. obj_define (fst p) (snd p) ps) [(''key'', key)] (own_entries v))"

text \<open>
  \<^verbatim>\<open>a === b\<close>. Primitives compare by value; objects, arrays and functions compare by
  identity, and the two operands of the comparisons made here are never one object: one
  is read from the store, the other from the message being handled.
\<close>

fun strict_eq :: "jsval \<Rightarrow> jsval \<Rightarrow> bool" where
  "strict_eq JUndefined JUndefined = True"
| "strict_eq JNull JNull = True"
| "strict_eq (JBool a) (JBool b) = (a = b)"
| "strict_eq (JNum a) (JNum b) = (a = b)"
| "strict_eq (JStr a) (JStr b) = (a = b)"
| "strict_eq a b = False"

subsection \<open>JSON text\<close>

text \<open>
  A JSON text is represented by the value it parses to. \<^verbatim>\<open>JSON.stringify\<close> returns
  \<^verbatim>\<open>undefined\<close> instead of a text for \<^verbatim>\<open>undefined\<close> and for a function, leaves such
  properties out of an object and writes them as \<^verbatim>\<open>null\<close> in an array.
\<close>

datatype json_text = Text jsval

fun JSON_parse_text :: "json_text \<Rightarrow> jsval" where
  "JSON_parse_text (Text v) = v"

fun unserializable :: "jsval \<Rightarrow> bool" where
  "unserializable JUndefined = True"
| "unserializable (JNative n) = (n \<noteq> ''__proto__'')"
| "unserializable v = False"

fun json_clean :: "jsval \<Rightarrow> jsval"
  and clean_props :: "(string \<times> jsval) list \<Rightarrow> (string \<times> jsval) list"
  and clean_elems :: "jsval list \<Rightarrow> jsval list" where
  "json_clean (JArr xs) = JArr (clean_elems xs)"
| "json_clean (JObj ps) = JObj (clean_props ps)"
| "json_clean (JNative n) = (if n = ''__proto__'' then JObj [] else JNative n)"
| "json_clean JUndefined = JUndefined"
| "json_clean JNull = JNull"
| "json_clean (JBool b) = JBool b"
| "json_clean (JNum n) = JNum n"
| "json_clean (JStr s) = JStr s"
| "clean_props [] = []"
| "clean_props (p # ps) =
     (if unserializable (snd p) then clean_props ps
      else (fst p, json_clean (snd p)) # clean_props ps)"
| "clean_elems [] = []"
| "clean_elems (x # xs) =
     (if unserializable x then JNull else json_clean x) # clean_elems xs"

definition JSON_stringify :: "jsval \<Rightarrow> json_text option" where
  "JSON_stringify v = (if unserializable v then None else Some (Text (json_clean v)))"

text \<open>
  A string handed to \<^verbatim>\<open>JSON.parse\<close>: \<open>Some t\<close> when it is a JSON text, \<open>None\<close> when it
  is not (a malformed frame, a file that holds something else).
\<close>

type_synonym wire = "json_text option"

definition JSON_parse :: "wire \<Rightarrow> jsval outcome" where
  "JSON_parse w =
     (case w of
        None \<Rightarrow> Inl (SyntaxError ''Unexpected token in JSON'')
      | Some t \<Rightarrow> Inr (JSON_parse_text t))"

text \<open>
  \<^verbatim>\<open>JSON.parse\<close> of what \<^verbatim>\<open>JSON.stringify\<close> returned: given \<^verbatim>\<open>undefined\<close>, it reads the
  string \<^verbatim>\<open>undefined\<close>, which is not JSON.
\<close>

definition JSON_parse_stored :: "json_text option \<Rightarrow> jsval outcome" where
  "JSON_parse_stored w =
     (case w of
        None \<Rightarrow> Inl (SyntaxError (CHR 0x22 # ''undefined'' @ CHR 0x22 # '' is not valid JSON''))
      | Some t \<Rightarrow> Inr (JSON_parse_text t))"

text \<open>\<^verbatim>\<open>s.startsWith(p)\<close> and \<^verbatim>\<open>s.replace(p, r)\<close> for a string pattern: the first
  occurrence is replaced.\<close>

definition starts_with :: "string \<Rightarrow> string \<Rightarrow> bool" where
  "starts_with s p = (take (length p) s = p)"

fun js_replace :: "string \<Rightarrow> string \<Rightarrow> string \<Rightarrow> string" where
  "js_replace [] p r = (if p = [] then r else [])"
| "js_replace (c # cs) p r =
     (if take (length p) (c # cs) = p then r @ drop (length p) (c # cs)
      else c # js_replace cs p r)"

text \<open>The template literal \<^verbatim>\<open>`${a}<sep>${b}`\<close>.\<close>

definition template2 :: "jsval \<Rightarrow> string \<Rightarrow> jsval \<Rightarrow> string outcome" where
  "template2 a sep b =
     (case js_to_string a of
        Inl e \<Rightarrow> Inl e
      | Inr x \<Rightarrow> (case js_to_string b of Inl e \<Rightarrow> Inl e | Inr y \<Rightarrow> Inr (x @ sep @ y)))"

section \<open>Storage adapters\<close>

text \<open>
  Every adapter method is an \<^verbatim>\<open>async\<close> function without an \<^verbatim>\<open>await\<close> in its body: it runs
  to completion when called. A method returns what it returns or throws, with the
  adapter as it left it. \<open>now\<close> stands for \<^verbatim>\<open>Date.now()\<close>.
\<close>

subsection \<open>The query predicate\<close>

text \<open>
  \<^verbatim>\<open>Object.entries(query).every(([queryKey, queryValue]) => value[queryKey] === queryValue)\<close>:
  \<^verbatim>\<open>every\<close> stops at the first field that differs, and is true of no fields at all.
\<close>

fun every_field :: "jsval \<Rightarrow> (string \<times> jsval) list \<Rightarrow> bool outcome" where
  "every_field v [] = Inr True"
| "every_field v (q # qs) =
     (case js_get v (fst q) of
        Inl e \<Rightarrow> Inl e
      | Inr x \<Rightarrow> (if strict_eq x (snd q) then every_field v qs else Inr False))"

definition matches :: "jsval \<Rightarrow> jsval \<Rightarrow> bool outcome" where
  "matches v query =
     (case object_entries query of Inl e \<Rightarrow> Inl e | Inr qs \<Rightarrow> every_field v qs)"

subsection \<open>BrowserStorageAdapter\<close>

text \<open>
  Two \<^verbatim>\<open>Map\<close>s from a collection to the object of its keys. A \<^verbatim>\<open>Map\<close> finds a
  primitive key by value and an object key by identity, so a collection given as an
  array or object is never found again by a later message.
\<close>

type_synonym props = "(string \<times> jsval) list"
type_synonym jsmap = "(jsval \<times> js_object) list"

record BrowserStorageAdapter =
  localStorage :: jsmap
  indexedDB :: jsmap

fun map_get :: "jsmap \<Rightarrow> jsval \<Rightarrow> js_object option" where
  "map_get [] c = None"
| "map_get (e # m) c = (if strict_eq (fst e) c then Some (snd e) else map_get m c)"

fun map_set :: "jsval \<Rightarrow> js_object \<Rightarrow> jsmap \<Rightarrow> jsmap" where
  "map_set c d [] = [(c, d)]"
| "map_set c d (e # m) = (if strict_eq (fst e) c then (fst e, d) # m else e # map_set c d m)"

text \<open>\<^verbatim>\<open>storage.get(collection) || {}\<close>\<close>

definition collection_or_empty :: "jsmap \<Rightarrow> jsval \<Rightarrow> js_object" where
  "collection_or_empty m c = (case map_get m c of Some d \<Rightarrow> d | None \<Rightarrow> new_object)"

text \<open>Writing the object that \<^verbatim>\<open>storage.get(collection)\<close> returned back to its entry; a
  collection that was not there has just been entered at the end.\<close>

definition store_collection :: "jsval \<Rightarrow> js_object \<Rightarrow> jsmap \<Rightarrow> jsmap" where
  "store_collection c d m = (if map_get m c = None then m @ [(c, d)] else map_set c d m)"

definition select_storage :: "BrowserStorageAdapter \<Rightarrow> bool \<Rightarrow> jsmap" where
  "select_storage a idb = (if idb then indexedDB a else localStorage a)"

definition put_storage :: "BrowserStorageAdapter \<Rightarrow> bool \<Rightarrow> jsmap \<Rightarrow> BrowserStorageAdapter" where
  "put_storage a idb m = (if idb then a\<lparr>indexedDB := m\<rparr> else a\<lparr>localStorage := m\<rparr>)"

definition browser_get :: "BrowserStorageAdapter \<Rightarrow> jsval \<Rightarrow> jsval \<Rightarrow> jsval \<Rightarrow> jsval outcome" where
  "browser_get a collection key options =
     (case js_get options ''useIndexedDB'' of
        Inl e \<Rightarrow> Inl e
      | Inr u \<Rightarrow>
          (let collectionData = collection_or_empty (select_storage a (truthy u)) collection
           in case js_to_string key of
                Inl e \<Rightarrow> Inl e
              | Inr k \<Rightarrow> Inr (js_or (object_read collectionData k) JNull)))"

definition browser_set ::
  "int \<Rightarrow> BrowserStorageAdapter \<Rightarrow> jsval \<Rightarrow> jsval \<Rightarrow> jsval \<Rightarrow> jsval \<Rightarrow> jsval outcome \<times> BrowserStorageAdapter" where
  "browser_set now a collection key v options =
     (case js_get options ''useIndexedDB'' of
        Inl e \<Rightarrow> (Inl e, a)
      | Inr u \<Rightarrow>
          (let m = select_storage a (truthy u);
               collectionData = collection_or_empty m collection
           in case js_to_string key of
                Inl e \<Rightarrow> (Inl e, put_storage a (truthy u) (store_collection collection collectionData m))
              | Inr k \<Rightarrow>
                  (Inr (JObj [(''success'', JBool True), (''key'', key), (''timestamp'', JNum now)]),
                   put_storage a (truthy u)
                     (store_collection collection (obj_assign k v collectionData) m))))"

definition browser_delete ::
  "BrowserStorageAdapter \<Rightarrow> jsval \<Rightarrow> jsval \<Rightarrow> jsval \<Rightarrow> jsval outcome \<times> BrowserStorageAdapter" where
  "browser_delete a collection key options =
     (case js_get options ''useIndexedDB'' of
        Inl e \<Rightarrow> (Inl e, a)
      | Inr u \<Rightarrow>
          (let m = select_storage a (truthy u)
           in case js_to_string key of
                Inl e \<Rightarrow> (Inl e, a)
              | Inr k \<Rightarrow>
                  (Inr (JObj [(''success'', JBool True), (''deleted'', key)]),
                   (case map_get m collection of
                      None \<Rightarrow> a
                    | Some d \<Rightarrow> put_storage a (truthy u) (map_set collection (obj_delete k d) m)))))"

fun filter_entries :: "props \<Rightarrow> jsval \<Rightarrow> props outcome" where
  "filter_entries [] query = Inr []"
| "filter_entries (p # ps) query =
     (case matches (snd p) query of
        Inl e \<Rightarrow> Inl e
      | Inr b \<Rightarrow>
          (case filter_entries ps query of
             Inl e \<Rightarrow> Inl e
           | Inr r \<Rightarrow> Inr (if b then p # r else r)))"

definition browser_query :: "BrowserStorageAdapter \<Rightarrow> jsval \<Rightarrow> jsval \<Rightarrow> jsval \<Rightarrow> jsval outcome" where
  "browser_query a collection query options =
     (case js_get options ''useIndexedDB'' of
        Inl e \<Rightarrow> Inl e
      | Inr u \<Rightarrow>
          (let collectionData = collection_or_empty (select_storage a (truthy u)) collection
           in case filter_entries (own collectionData) query of
                Inl e \<Rightarrow> Inl e
              | Inr results \<Rightarrow> Inr (JArr (map (\<lambda>p. key_spread (JStr (fst p)) (snd p)) results))))"

subsection \<open>ReactNativeStorageAdapter\<close>

text \<open>
  One \<^verbatim>\<open>Map\<close> from \<^verbatim>\<open>`${collection}:${key}`\<close> to the JSON text of the value, in
  insertion order; the entry holds \<^verbatim>\<open>undefined\<close> (\<open>None\<close>) when the value had no JSON
  text.
\<close>

record ReactNativeStorageAdapter =
  storage :: "(string \<times> json_text option) list"

definition rn_get :: "ReactNativeStorageAdapter \<Rightarrow> jsval \<Rightarrow> jsval \<Rightarrow> jsval \<Rightarrow> jsval outcome" where
  "rn_get a collection key options =
     (case template2 collection '':'' key of
        Inl e \<Rightarrow> Inl e
      | Inr fullKey \<Rightarrow>
          (case map_of (storage a) fullKey of
             Some (Some t) \<Rightarrow> Inr (JSON_parse_text t)
           | _ \<Rightarrow> Inr JNull))"

definition rn_set ::
  "int \<Rightarrow> ReactNativeStorageAdapter \<Rightarrow> jsval \<Rightarrow> jsval \<Rightarrow> jsval \<Rightarrow> jsval \<Rightarrow> jsval outcome \<times> ReactNativeStorageAdapter" where
  "rn_set now a collection key v options =
     (case template2 collection '':'' key of
        Inl e \<Rightarrow> (Inl e, a)
      | Inr fullKey \<Rightarrow>
          (Inr (JObj [(''success'', JBool True), (''key'', JStr fullKey), (''timestamp'', JNum now)]),
           a\<lparr>storage := AList.update fullKey (JSON_stringify v) (storage a)\<rparr>))"

definition rn_delete ::
  "ReactNativeStorageAdapter \<Rightarrow> jsval \<Rightarrow> jsval \<Rightarrow> jsval \<Rightarrow> jsval outcome \<times> ReactNativeStorageAdapter" where
  "rn_delete a collection key options =
     (case template2 collection '':'' key of
        Inl e \<Rightarrow> (Inl e, a)
      | Inr fullKey \<Rightarrow>
          (Inr (JObj [(''success'', JBool True), (''deleted'', JStr fullKey)]),
           a\<lparr>storage := AList.delete fullKey (storage a)\<rparr>))"

text \<open>The body of \<^verbatim>\<open>this.storage.forEach\<close>: an exception in the callback leaves the loop
  and the method.\<close>

fun rn_scan :: "(string \<times> json_text option) list \<Rightarrow> string \<Rightarrow> jsval \<Rightarrow> jsval list outcome" where
  "rn_scan [] prefix query = Inr []"
| "rn_scan (e # es) prefix query =
     (if starts_with (fst e) prefix then
        (case JSON_parse_stored (snd e) of
           Inl x \<Rightarrow> Inl x
         | Inr parsedValue \<Rightarrow>
             (case matches parsedValue query of
                Inl x \<Rightarrow> Inl x
              | Inr b \<Rightarrow>
                  (case rn_scan es prefix query of
                     Inl x \<Rightarrow> Inl x
                   | Inr results \<Rightarrow>
                       Inr (if b then key_spread (JStr (js_replace (fst e) prefix [])) parsedValue # results
                            else results))))
      else rn_scan es prefix query)"

definition rn_query :: "ReactNativeStorageAdapter \<Rightarrow> jsval \<Rightarrow> jsval \<Rightarrow> jsval \<Rightarrow> jsval outcome" where
  "rn_query a collection query options =
     (case js_to_string collection of
        Inl e \<Rightarrow> Inl e
      | Inr c \<Rightarrow>
          (case rn_scan (storage a) (c @ '':'') query of
             Inl e \<Rightarrow> Inl e
           | Inr results \<Rightarrow> Inr (JArr results)))"

subsection \<open>NodeJSStorageAdapter\<close>

text \<open>
  One file per key in the data directory, named \<^verbatim>\<open>`${collection}_${key}.json`\<close>. The
  directory is the list of its files in the order \<^verbatim>\<open>readdirSync\<close> lists them, each with
  its content as \<^verbatim>\<open>JSON.parse\<close> sees it. \<^verbatim>\<open>readdirSync\<close> lists the names as \<^verbatim>\<open>scandir\<close>
  sorts them, by \<^verbatim>\<open>strcmp\<close>, so \<open>write_file\<close> puts a new file at its place in that
  order. Names are taken to hold no path separator (with one, \<^verbatim>\<open>path.join\<close> would
  leave the directory), and the file system itself does not fail. \<^verbatim>\<open>writeFileSync\<close>
  refuses the \<^verbatim>\<open>undefined\<close> that \<^verbatim>\<open>JSON.stringify\<close> returns for a value without a JSON
  text.
\<close>

record NodeJSStorageAdapter =
  dataDir :: string
  files :: "(string \<times> wire) list"

fun strcmp_less :: "string \<Rightarrow> string \<Rightarrow> bool" where
  "strcmp_less [] [] = False"
| "strcmp_less [] (d # t) = True"
| "strcmp_less (c # s) [] = False"
| "strcmp_less (c # s) (d # t) = ((of_char c :: nat) < of_char d \<or> (c = d \<and> strcmp_less s t))"

fun write_file :: "string \<Rightarrow> wire \<Rightarrow> (string \<times> wire) list \<Rightarrow> (string \<times> wire) list" where
  "write_file n content [] = [(n, content)]"
| "write_file n content (f # fs) =
     (if fst f = n then (n, content) # fs
      else if strcmp_less n (fst f) then (n, content) # f # fs
      else f # write_file n content fs)"

definition file_name :: "jsval \<Rightarrow> jsval \<Rightarrow> string outcome" where
  "file_name collection key =
     (case template2 collection ''_'' key of Inl e \<Rightarrow> Inl e | Inr n \<Rightarrow> Inr (n @ ''.json''))"

definition getFilePath :: "NodeJSStorageAdapter \<Rightarrow> jsval \<Rightarrow> jsval \<Rightarrow> string outcome" where
  "getFilePath a collection key =
     (case file_name collection key of Inl e \<Rightarrow> Inl e | Inr n \<Rightarrow> Inr (dataDir a @ ''/'' @ n))"

definition nodejs_get :: "NodeJSStorageAdapter \<Rightarrow> jsval \<Rightarrow> jsval \<Rightarrow> jsval \<Rightarrow> jsval outcome" where
  "nodejs_get a collection key options =
     (case file_name collection key of
        Inl e \<Rightarrow> Inr JNull
      | Inr n \<Rightarrow>
          (case map_of (files a) n of
             None \<Rightarrow> Inr JNull
           | Some content \<Rightarrow>
               (case JSON_parse content of Inl e \<Rightarrow> Inr JNull | Inr v \<Rightarrow> Inr v)))"

definition nodejs_set ::
  "int \<Rightarrow> NodeJSStorageAdapter \<Rightarrow> jsval \<Rightarrow> jsval \<Rightarrow> jsval \<Rightarrow> jsval \<Rightarrow> jsval outcome \<times> NodeJSStorageAdapter" where
  "nodejs_set now a collection key v options =
     (case file_name collection key of
        Inl e \<Rightarrow> (Inl (Error (''Failed to save data: '' @ message e)), a)
      | Inr n \<Rightarrow>
          (case JSON_stringify v of
             None \<Rightarrow>
               (Inl (Error (''Failed to save data: '' @
                      message (TypeError (''The '' @ CHR 0x22 # ''data'' @ CHR 0x22 #
                        '' argument must be of type string or an instance of Buffer, TypedArray, or DataView. Received undefined'')))), a)
           | Some t \<Rightarrow>
               (Inr (JObj [(''success'', JBool True), (''key'', key),
                           (''filePath'', JStr (dataDir a @ ''/'' @ n)), (''timestamp'', JNum now)]),
                a\<lparr>files := write_file n (Some t) (files a)\<rparr>)))"

definition nodejs_delete ::
  "NodeJSStorageAdapter \<Rightarrow> jsval \<Rightarrow> jsval \<Rightarrow> jsval \<Rightarrow> jsval outcome \<times> NodeJSStorageAdapter" where
  "nodejs_delete a collection key options =
     (case file_name collection key of
        Inl e \<Rightarrow> (Inl (Error (''Failed to delete data: '' @ message e)), a)
      | Inr n \<Rightarrow>
          (Inr (JObj [(''success'', JBool True), (''deleted'', key)]),
           a\<lparr>files := AList.delete n (files a)\<rparr>))"

text \<open>The loop over the collection's files: whatever is thrown while one file is read,
  decoded or compared is caught and logged, and the loop goes on.\<close>

fun nodejs_scan :: "(string \<times> wire) list \<Rightarrow> string \<Rightarrow> jsval \<Rightarrow> jsval list" where
  "nodejs_scan [] prefix query = []"
| "nodejs_scan (f # fs) prefix query =
     (if starts_with (fst f) prefix then
        (case JSON_parse (snd f) of
           Inl x \<Rightarrow> nodejs_scan fs prefix query
         | Inr data \<Rightarrow>
             (case matches data query of
                Inl x \<Rightarrow> nodejs_scan fs prefix query
              | Inr b \<Rightarrow>
                  (if b then
                     key_spread (JStr (js_replace (js_replace (fst f) prefix []) ''.json'' [])) data
                       # nodejs_scan fs prefix query
                   else nodejs_scan fs prefix query)))
      else nodejs_scan fs prefix query)"

definition nodejs_query :: "NodeJSStorageAdapter \<Rightarrow> jsval \<Rightarrow> jsval \<Rightarrow> jsval \<Rightarrow> jsval outcome" where
  "nodejs_query a collection query options =
     (if files a = [] then Inr (JArr [])
      else (case js_to_string collection of
              Inl e \<Rightarrow> Inl e
            | Inr c \<Rightarrow> Inr (JArr (nodejs_scan (files a) (c @ ''_'') query))))"

section \<open>The broker\<close>

text \<open>
  A connection is the \<^verbatim>\<open>ws\<close> object of the library with the fields the broker adds
  to it. The objects live in a store (\<open>sockets\<close>, from a reference to the object), so that
  a change a handler makes to its own connection is the one the fan-out over
  \<open>activeConnections\<close> (the references of the \<^verbatim>\<open>Set\<close>, in insertion order) later reads.
  \<open>sent\<close> lists what was handed to \<^verbatim>\<open>ws.send\<close>, \<open>logged\<close> what \<open>handleMessage\<close> wrote
  with \<^verbatim>\<open>console.error\<close>. One call of \<open>handleMessage\<close> is taken as one step: the
  interleaving of two calls at an \<^verbatim>\<open>await\<close> is not followed.
\<close>

datatype ready_state = CONNECTING | OPEN | CLOSING | CLOSED

record ws =
  clientId :: string
  platform :: string
  subscriptions :: "string set"
  readyState :: ready_state
  isAlive :: bool

datatype adapter = Browser | ReactNative | NodeJS

record WebSocketDataServer =
  browserAdapter :: BrowserStorageAdapter
  reactNativeAdapter :: ReactNativeStorageAdapter
  nodejsAdapter :: NodeJSStorageAdapter
  sockets :: "nat \<Rightarrow> ws"
  activeConnections :: "nat list"
  sent :: "(nat \<times> wire) list"
  logged :: "js_error list"

definition storageAdapters_get :: "string \<Rightarrow> adapter option" where
  "storageAdapters_get p =
     (if p = ''browser'' then Some Browser
      else if p = ''react-native'' then Some ReactNative
      else if p = ''nodejs'' then Some NodeJS
      else None)"

definition handler_names :: "string list" where
  "handler_names = [''GET'', ''SET'', ''DELETE'', ''QUERY'', ''BATCH'', ''PING'', ''SUBSCRIBE'', ''UNSUBSCRIBE'']"

fun messageHandlers_get :: "jsval \<Rightarrow> string option" where
  "messageHandlers_get (JStr t) = (if t \<in> set handler_names then Some t else None)"
| "messageHandlers_get v = None"

definition sendMessage :: "nat \<Rightarrow> jsval \<Rightarrow> WebSocketDataServer \<Rightarrow> WebSocketDataServer" where
  "sendMessage r msg st =
     (if readyState (sockets st r) = OPEN
      then st\<lparr>sent := sent st @ [(r, JSON_stringify msg)]\<rparr>
      else st)"

definition default_to :: "jsval \<Rightarrow> jsval \<Rightarrow> jsval" where
  "default_to d v = (if v = JUndefined then d else v)"

text \<open>The \<open>TypeError\<close> of \<^verbatim>\<open>const { k, ... } = x\<close> when \<open>x\<close> is \<^verbatim>\<open>undefined\<close> or \<^verbatim>\<open>null\<close>.\<close>

definition cannot_destructure :: "string \<Rightarrow> string \<Rightarrow> jsval \<Rightarrow> js_error" where
  "cannot_destructure k x v =
     TypeError (''Cannot destructure property '' @ quoted k @ '' of '' @ quoted x @ '' as it is ''
                @ (if v = JNull then ''null'' else ''undefined'') @ ''.'')"

definition no_adapter :: "string \<Rightarrow> js_error" where
  "no_adapter m = cannot_read JUndefined m"

definition adapter_get ::
  "adapter option \<Rightarrow> WebSocketDataServer \<Rightarrow> jsval \<Rightarrow> jsval \<Rightarrow> jsval \<Rightarrow> jsval outcome" where
  "adapter_get ad st collection key options =
     (case ad of
        None \<Rightarrow> Inl (no_adapter ''get'')
      | Some Browser \<Rightarrow> browser_get (browserAdapter st) collection key options
      | Some ReactNative \<Rightarrow> rn_get (reactNativeAdapter st) collection key options
      | Some NodeJS \<Rightarrow> nodejs_get (nodejsAdapter st) collection key options)"

definition adapter_set ::
  "int \<Rightarrow> adapter option \<Rightarrow> WebSocketDataServer \<Rightarrow> jsval \<Rightarrow> jsval \<Rightarrow> jsval \<Rightarrow> jsval
     \<Rightarrow> jsval outcome \<times> WebSocketDataServer" where
  "adapter_set now ad st collection key v options =
     (case ad of
        None \<Rightarrow> (Inl (no_adapter ''set''), st)
      | Some Browser \<Rightarrow>
          (case browser_set now (browserAdapter st) collection key v options of
             (res, a) \<Rightarrow> (res, st\<lparr>browserAdapter := a\<rparr>))
      | Some ReactNative \<Rightarrow>
          (case rn_set now (reactNativeAdapter st) collection key v options of
             (res, a) \<Rightarrow> (res, st\<lparr>reactNativeAdapter := a\<rparr>))
      | Some NodeJS \<Rightarrow>
          (case nodejs_set now (nodejsAdapter st) collection key v options of
             (res, a) \<Rightarrow> (res, st\<lparr>nodejsAdapter := a\<rparr>)))"

definition adapter_delete ::
  "adapter option \<Rightarrow> WebSocketDataServer \<Rightarrow> jsval \<Rightarrow> jsval \<Rightarrow> jsval
     \<Rightarrow> jsval outcome \<times> WebSocketDataServer" where
  "adapter_delete ad st collection key options =
     (case ad of
        None \<Rightarrow> (Inl (no_adapter ''delete''), st)
      | Some Browser \<Rightarrow>
          (case browser_delete (browserAdapter st) collection key options of
             (res, a) \<Rightarrow> (res, st\<lparr>browserAdapter := a\<rparr>))
      | Some ReactNative \<Rightarrow>
          (case rn_delete (reactNativeAdapter st) collection key options of
             (res, a) \<Rightarrow> (res, st\<lparr>reactNativeAdapter := a\<rparr>))
      | Some NodeJS \<Rightarrow>
          (case nodejs_delete (nodejsAdapter st) collection key options of
             (res, a) \<Rightarrow> (res, st\<lparr>nodejsAdapter := a\<rparr>)))"

definition adapter_query ::
  "adapter option \<Rightarrow> WebSocketDataServer \<Rightarrow> jsval \<Rightarrow> jsval \<Rightarrow> jsval \<Rightarrow> jsval outcome" where
  "adapter_query ad st collection query options =
     (case ad of
        None \<Rightarrow> Inl (no_adapter ''query'')
      | Some Browser \<Rightarrow> browser_query (browserAdapter st) collection query options
      | Some ReactNative \<Rightarrow> rn_query (reactNativeAdapter st) collection query options
      | Some NodeJS \<Rightarrow> nodejs_query (nodejsAdapter st) collection query options)"

subsection \<open>Fan-out\<close>

definition subscription_update :: "int \<Rightarrow> jsval \<Rightarrow> jsval \<Rightarrow> string \<Rightarrow> jsval \<Rightarrow> jsval" where
  "subscription_update now collection key operation v =
     JObj [(''type'', JStr ''SUBSCRIPTION_UPDATE''), (''collection'', collection), (''key'', key),
           (''operation'', JStr operation), (''value'', v), (''timestamp'', JNum now)]"

definition notify_one ::
  "int \<Rightarrow> jsval \<Rightarrow> jsval \<Rightarrow> string \<Rightarrow> jsval \<Rightarrow> string \<Rightarrow> string \<Rightarrow> string
     \<Rightarrow> WebSocketDataServer \<Rightarrow> nat \<Rightarrow> WebSocketDataServer" where
  "notify_one now collection key operation v originClientId subscriptionKey wildcardKey st r =
     (if clientId (sockets st r) = originClientId then st
      else if subscriptionKey \<in> subscriptions (sockets st r) \<or> wildcardKey \<in> subscriptions (sockets st r)
      then sendMessage r (subscription_update now collection key operation v) st
      else st)"

definition notifySubscribers ::
  "int \<Rightarrow> jsval \<Rightarrow> jsval \<Rightarrow> string \<Rightarrow> jsval \<Rightarrow> string \<Rightarrow> WebSocketDataServer
     \<Rightarrow> js_error option \<times> WebSocketDataServer" where
  "notifySubscribers now collection key operation v originClientId st =
     (case template2 collection '':'' key of
        Inl e \<Rightarrow> (Some e, st)
      | Inr subscriptionKey \<Rightarrow>
          (case template2 collection '':'' (JStr ''*'') of
             Inl e \<Rightarrow> (Some e, st)
           | Inr wildcardKey \<Rightarrow>
               (None,
                foldl (notify_one now collection key operation v originClientId subscriptionKey wildcardKey)
                  st (activeConnections st))))"

subsection \<open>Handlers\<close>

text \<open>
  A handler destructures its payload (a \<open>TypeError\<close> when the payload is \<^verbatim>\<open>undefined\<close>
  or \<^verbatim>\<open>null\<close>; \<^verbatim>\<open>options = {}\<close> fills in an absent field only), calls the adapter of the
  connection's platform (a \<open>TypeError\<close> when the platform has none) and returns what
  the adapter returned, or throws.
\<close>

definition handleGet ::
  "jsval \<Rightarrow> adapter option \<Rightarrow> nat \<Rightarrow> WebSocketDataServer \<Rightarrow> jsval outcome \<times> WebSocketDataServer" where
  "handleGet payload ad r st =
     (if nullish payload then (Inl (cannot_destructure ''collection'' ''payload'' payload), st)
      else (adapter_get ad st (js_prop payload ''collection'') (js_prop payload ''key'')
              (default_to (JObj []) (js_prop payload ''options'')), st))"

definition handleSet ::
  "int \<Rightarrow> jsval \<Rightarrow> adapter option \<Rightarrow> nat \<Rightarrow> WebSocketDataServer \<Rightarrow> jsval outcome \<times> WebSocketDataServer" where
  "handleSet now payload ad r st =
     (if nullish payload then (Inl (cannot_destructure ''collection'' ''payload'' payload), st)
      else
        (let collection = js_prop payload ''collection''; key = js_prop payload ''key'';
             v = js_prop payload ''value''; options = default_to (JObj []) (js_prop payload ''options'')
         in case adapter_set now ad st collection key v options of
              (Inl e, st1) \<Rightarrow> (Inl e, st1)
            | (Inr result, st1) \<Rightarrow>
                (case notifySubscribers now collection key ''SET'' v (clientId (sockets st1 r)) st1 of
                   (Some e, st2) \<Rightarrow> (Inl e, st2)
                 | (None, st2) \<Rightarrow> (Inr result, st2))))"

definition handleDelete ::
  "int \<Rightarrow> jsval \<Rightarrow> adapter option \<Rightarrow> nat \<Rightarrow> WebSocketDataServer \<Rightarrow> jsval outcome \<times> WebSocketDataServer" where
  "handleDelete now payload ad r st =
     (if nullish payload then (Inl (cannot_destructure ''collection'' ''payload'' payload), st)
      else
        (let collection = js_prop payload ''collection''; key = js_prop payload ''key'';
             options = default_to (JObj []) (js_prop payload ''options'')
         in case adapter_delete ad st collection key options of
              (Inl e, st1) \<Rightarrow> (Inl e, st1)
            | (Inr result, st1) \<Rightarrow>
                (case notifySubscribers now collection key ''DELETE'' JNull (clientId (sockets st1 r)) st1 of
                   (Some e, st2) \<Rightarrow> (Inl e, st2)
                 | (None, st2) \<Rightarrow> (Inr result, st2))))"

definition handleQuery ::
  "jsval \<Rightarrow> adapter option \<Rightarrow> nat \<Rightarrow> WebSocketDataServer \<Rightarrow> jsval outcome \<times> WebSocketDataServer" where
  "handleQuery payload ad r st =
     (if nullish payload then (Inl (cannot_destructure ''collection'' ''payload'' payload), st)
      else (adapter_query ad st (js_prop payload ''collection'') (js_prop payload ''query'')
              (default_to (JObj []) (js_prop payload ''options'')), st))"

definition handlePing :: "int \<Rightarrow> WebSocketDataServer \<Rightarrow> jsval outcome \<times> WebSocketDataServer" where
  "handlePing now st = (Inr (JObj [(''pong'', JBool True), (''timestamp'', JNum now)]), st)"

definition handleSubscribe ::
  "jsval \<Rightarrow> nat \<Rightarrow> WebSocketDataServer \<Rightarrow> jsval outcome \<times> WebSocketDataServer" where
  "handleSubscribe payload r st =
     (if nullish payload then (Inl (cannot_destructure ''collection'' ''payload'' payload), st)
      else (case template2 (js_prop payload ''collection'') '':'' (js_prop payload ''pattern'') of
              Inl e \<Rightarrow> (Inl e, st)
            | Inr subscriptionKey \<Rightarrow>
                (Inr (JObj [(''subscribed'', JStr subscriptionKey)]),
                 st\<lparr>sockets := (sockets st)
                       (r := (sockets st r)\<lparr>subscriptions := insert subscriptionKey (subscriptions (sockets st r))\<rparr>)\<rparr>)))"

definition handleUnsubscribe ::
  "jsval \<Rightarrow> nat \<Rightarrow> WebSocketDataServer \<Rightarrow> jsval outcome \<times> WebSocketDataServer" where
  "handleUnsubscribe payload r st =
     (if nullish payload then (Inl (cannot_destructure ''collection'' ''payload'' payload), st)
      else (case template2 (js_prop payload ''collection'') '':'' (js_prop payload ''pattern'') of
              Inl e \<Rightarrow> (Inl e, st)
            | Inr subscriptionKey \<Rightarrow>
                (Inr (JObj [(''unsubscribed'', JStr subscriptionKey)]),
                 st\<lparr>sockets := (sockets st)
                       (r := (sockets st r)\<lparr>subscriptions := subscriptions (sockets st r) - {subscriptionKey}\<rparr>)\<rparr>)))"

text \<open>The handlers other than \<^verbatim>\<open>BATCH\<close>, by registered name.\<close>

definition plain_handler ::
  "int \<Rightarrow> string \<Rightarrow> jsval \<Rightarrow> adapter option \<Rightarrow> nat \<Rightarrow> WebSocketDataServer
     \<Rightarrow> jsval outcome \<times> WebSocketDataServer" where
  "plain_handler now t payload ad r st =
     (if t = ''GET'' then handleGet payload ad r st
      else if t = ''SET'' then handleSet now payload ad r st
      else if t = ''DELETE'' then handleDelete now payload ad r st
      else if t = ''QUERY'' then handleQuery payload ad r st
      else if t = ''PING'' then handlePing now st
      else if t = ''SUBSCRIBE'' then handleSubscribe payload r st
      else handleUnsubscribe payload r st)"

text \<open>\<^verbatim>\<open>for (const operation of operations)\<close>: an array yields its elements, a string its
  characters, nothing else parsed from JSON is iterable.\<close>

fun iterate :: "jsval \<Rightarrow> jsval list outcome" where
  "iterate (JArr xs) = Inr xs"
| "iterate (JStr s) = Inr (map (\<lambda>c. JStr [c]) s)"
| "iterate v = Inl (TypeError ''operations is not iterable'')"

definition msize :: "jsval list \<Rightarrow> nat" where
  "msize xs = sum_list (map size xs)"

function handler ::
    "int \<Rightarrow> string \<Rightarrow> jsval \<Rightarrow> adapter option \<Rightarrow> nat \<Rightarrow> WebSocketDataServer
       \<Rightarrow> jsval outcome \<times> WebSocketDataServer"
  and batch_loop ::
    "int \<Rightarrow> jsval list \<Rightarrow> adapter option \<Rightarrow> nat \<Rightarrow> WebSocketDataServer
       \<Rightarrow> jsval list outcome \<times> WebSocketDataServer" where
  "handler now t payload ad r st =
     (if t = ''BATCH'' then
        (if nullish payload then (Inl (cannot_destructure ''operations'' ''payload'' payload), st)
         else (case iterate (js_prop payload ''operations'') of
                 Inl e \<Rightarrow> (Inl e, st)
               | Inr operations \<Rightarrow>
                   (case batch_loop now operations ad r st of
                      (Inl e, st1) \<Rightarrow> (Inl e, st1)
                    | (Inr results, st1) \<Rightarrow> (Inr (JArr results), st1))))
      else plain_handler now t payload ad r st)"
| "batch_loop now [] ad r st = (Inr [], st)"
| "batch_loop now (operation # operations) ad r st =
     (case js_get operation ''type'' of
        Inl e \<Rightarrow> (Inl e, st)
      | Inr ty \<Rightarrow>
          (case messageHandlers_get ty of
             None \<Rightarrow> batch_loop now operations ad r st
           | Some t \<Rightarrow>
               (case handler now t (js_prop operation ''payload'') ad r st of
                  (Inl e, st1) \<Rightarrow> (Inl e, st1)
                | (Inr result, st1) \<Rightarrow>
                    (case batch_loop now operations ad r st1 of
                       (Inl e, st2) \<Rightarrow> (Inl e, st2)
                     | (Inr results, st2) \<Rightarrow>
                         (Inr (JObj [(''operation'', js_prop operation ''id''), (''result'', result)] # results),
                          st2)))))"
  by pat_completeness auto

text \<open>
  \<open>handleBatch\<close> calls the registered handlers, itself among them, on the payloads of
  its operations: \<open>handler\<close> is the handler registered under a name, \<open>batch_loop\<close> the
  loop of \<open>handleBatch\<close>. The recursion ends because each payload is a proper part of
  the payload that holds it.
\<close>

lemma size_map_of: "map_of ps k = Some v \<Longrightarrow> size v < size (JObj ps)"
  by (induction ps) (auto split: if_splits)

lemma size_mem: "x \<in> set xs \<Longrightarrow> size x < size (JArr xs)"
  by (induction xs) auto

lemma size_inherited: "size (inherited k) = 0" "size (array_inherited k) = 0"
  by (simp_all add: inherited_def array_inherited_def)

lemma size_js_prop: "size (js_prop v k) \<le> size v"
proof (cases v)
  case (JObj ps)
  then show ?thesis
    using size_map_of [of ps k] by (auto simp: obj_read_def size_inherited split: option.splits)
next
  case (JArr xs)
  then show ?thesis
    using size_mem [of _ xs] by (auto simp: size_inherited less_imp_le split: option.splits)
qed (auto simp: size_inherited split: option.splits)

lemma msize_le: "msize xs \<le> size_list size xs"
  by (induction xs) (auto simp: msize_def)

lemma msize_chars: "msize (map (\<lambda>c. JStr [c]) s) = 0"
  by (induction s) (auto simp: msize_def)

lemma iterate_not_inherited: "iterate (inherited k) \<noteq> Inr ops" "iterate (array_inherited k) \<noteq> Inr ops"
  by (simp_all add: inherited_def array_inherited_def)

lemma msize_iterate:
  assumes "iterate (js_prop payload ''operations'') = Inr ops"
  shows "msize ops < size payload"
proof (cases payload)
  case (JObj ps)
  show ?thesis
  proof (cases "map_of ps ''operations''")
    case None
    with JObj assms show ?thesis by (simp add: obj_read_def iterate_not_inherited)
  next
    case (Some v)
    then have lt: "size v < size payload" using JObj size_map_of by simp
    from Some JObj assms have it: "iterate v = Inr ops" by (simp add: obj_read_def)
    show ?thesis
    proof (cases v)
      case (JArr xs)
      with it have "ops = xs" by simp
      with JArr lt msize_le [of xs] show ?thesis by simp
    next
      case (JStr str)
      with it have "msize ops = 0" by (auto simp: msize_chars)
      with lt show ?thesis by simp
    qed (use it in auto)
  qed
next
  case (JArr xs)
  with assms show ?thesis
    by (simp add: array_index_def is_digit_def iterate_not_inherited)
next
  case (JStr str)
  with assms show ?thesis
    by (simp add: array_index_def is_digit_def iterate_not_inherited)
qed (use assms in \<open>auto simp: iterate_not_inherited\<close>)

termination handler
proof (relation "measures
     [\<lambda>x. case x of Inl (now, t, payload, ad, r, st) \<Rightarrow> size payload
                   | Inr (now, ops, ad, r, st) \<Rightarrow> msize ops,
      \<lambda>x. case x of Inl (now, t, payload, ad, r, st) \<Rightarrow> 0
                   | Inr (now, ops, ad, r, st) \<Rightarrow> Suc (length ops)]", goal_cases)
  case 1
  show ?case by simp
next
  case 2
  then show ?case by (simp add: msize_iterate)
next
  case 3
  show ?case by (auto simp: msize_def)
next
  case (4 now operation operations ad r st b x2)
  have "size (js_prop operation ''payload'') \<le> size operation"
    by (rule size_js_prop)
  then show ?case by (simp add: msize_def) arith
next
  case 5
  show ?case by (auto simp: msize_def)
qed

declare handler.simps [simp del]


subsection \<open>The dispatcher\<close>

text \<open>
  \<open>handleMessage\<close> is an \<^verbatim>\<open>async\<close> function: an exception that leaves it rejects the
  promise it returned, which the \<^verbatim>\<open>message\<close> listener drops unhandled. The result is
  that exception, if any, and the broker as the call left it.
\<close>

definition response :: "int \<Rightarrow> string \<Rightarrow> jsval \<Rightarrow> jsval \<Rightarrow> jsval" where
  "response now t requestId result =
     JObj [(''type'', JStr (t @ ''_RESPONSE'')), (''requestId'', requestId),
           (''success'', JBool True), (''data'', result), (''timestamp'', JNum now)]"

definition error_envelope :: "int \<Rightarrow> jsval \<Rightarrow> js_error \<Rightarrow> jsval" where
  "error_envelope now requestId e =
     JObj [(''type'', JStr ''ERROR''), (''requestId'', requestId),
           (''success'', JBool False), (''error'', JStr (message e)), (''timestamp'', JNum now)]"

text \<open>
  The \<^verbatim>\<open>try\<close> block: what it throws, if it throws, with the broker as it was then. The
  \<^verbatim>\<open>console.log\<close> that reports the message writes \<^verbatim>\<open>${type}\<close>, before the handler is
  looked up.
\<close>

definition try_block ::
  "int \<Rightarrow> nat \<Rightarrow> wire \<Rightarrow> WebSocketDataServer \<Rightarrow> js_error option \<times> WebSocketDataServer" where
  "try_block now r data st =
     (case JSON_parse data of
        Inl e \<Rightarrow> (Some e, st)
      | Inr msg \<Rightarrow>
          (if nullish msg then (Some (cannot_destructure ''type'' ''message'' msg), st)
           else
             (let type = js_prop msg ''type''; requestId = js_prop msg ''requestId'';
                  payload = js_prop msg ''payload''
              in case js_to_string type of
                   Inl e \<Rightarrow> (Some e, st)
                 | Inr type_text \<Rightarrow>
                     (case messageHandlers_get type of
                        None \<Rightarrow> (Some (Error (''Unknown message type: '' @ type_text)), st)
                      | Some t \<Rightarrow>
                          (case handler now t payload (storageAdapters_get (platform (sockets st r))) r st of
                             (Inl e, st1) \<Rightarrow> (Some e, st1)
                           | (Inr result, st1) \<Rightarrow>
                               (None, sendMessage r (response now t requestId result) st1))))))"

text \<open>The \<^verbatim>\<open>catch\<close> block: it logs the error, parses the frame again for its
  \<^verbatim>\<open>requestId\<close>, and sends the \<^verbatim>\<open>ERROR\<close> envelope.\<close>

definition catch_block ::
  "int \<Rightarrow> nat \<Rightarrow> wire \<Rightarrow> js_error \<Rightarrow> WebSocketDataServer \<Rightarrow> js_error option \<times> WebSocketDataServer" where
  "catch_block now r data error st =
     (let st1 = st\<lparr>logged := logged st @ [error]\<rparr>
      in case JSON_parse data of
           Inl e \<Rightarrow> (Some e, st1)
         | Inr msg \<Rightarrow>
             (case js_get msg ''requestId'' of
                Inl e \<Rightarrow> (Some e, st1)
              | Inr requestId \<Rightarrow> (None, sendMessage r (error_envelope now requestId error) st1)))"

definition handleMessage ::
  "int \<Rightarrow> nat \<Rightarrow> wire \<Rightarrow> WebSocketDataServer \<Rightarrow> js_error option \<times> WebSocketDataServer" where
  "handleMessage now r data st =
     (case try_block now r data st of
        (None, st1) \<Rightarrow> (None, st1)
      | (Some error, st1) \<Rightarrow> catch_block now r data error st1)"

subsection \<open>Accepting and closing a connection\<close>

text \<open>\<^verbatim>\<open>s.includes(p)\<close>\<close>

fun js_includes :: "string \<Rightarrow> string \<Rightarrow> bool" where
  "js_includes [] p = (p = [])"
| "js_includes (c # cs) p = (take (length p) (c # cs) = p \<or> js_includes cs p)"

text \<open>The request headers are a map from a lower-case name to the value; an absent
  header reads as \<^verbatim>\<open>undefined\<close>, and an empty value is falsy like it.\<close>

definition detectPlatform :: "string \<Rightarrow> (string \<rightharpoonup> string) \<Rightarrow> string" where
  "detectPlatform userAgent headers =
     (case headers ''x-platform'' of
        Some p \<Rightarrow>
          (if p \<noteq> [] then p
           else if js_includes userAgent ''React Native'' then ''react-native''
           else if js_includes userAgent ''Mozilla'' \<or> js_includes userAgent ''Chrome'' then ''browser''
           else ''nodejs'')
      | None \<Rightarrow>
          (if js_includes userAgent ''React Native'' then ''react-native''
           else if js_includes userAgent ''Mozilla'' \<or> js_includes userAgent ''Chrome'' then ''browser''
           else ''nodejs''))"

definition capabilities :: "(string \<times> jsval) list" where
  "capabilities =
     [(''browser'', JArr [JStr ''localStorage'', JStr ''indexedDB'', JStr ''sessionStorage'']),
      (''react-native'', JArr [JStr ''asyncStorage'', JStr ''sqlite'', JStr ''secureStorage'']),
      (''nodejs'', JArr [JStr ''filesystem'', JStr ''sqlite'', JStr ''memory''])]"

definition getPlatformCapabilities :: "string \<Rightarrow> jsval" where
  "getPlatformCapabilities p = js_or (obj_read capabilities p) (JArr [JStr ''memory''])"

text \<open>
  The \<^verbatim>\<open>connection\<close> listener, for the connection object \<open>r\<close> the library hands over and
  the client id \<open>generateClientId\<close> drew for it (a time stamp and a random suffix).
\<close>

definition on_connection ::
  "nat \<Rightarrow> string \<Rightarrow> string \<Rightarrow> (string \<rightharpoonup> string) \<Rightarrow> WebSocketDataServer \<Rightarrow> WebSocketDataServer" where
  "on_connection r newClientId userAgent headers st =
     (let p = detectPlatform userAgent headers;
          w = (sockets st r)\<lparr>platform := p, clientId := newClientId, subscriptions := {}, isAlive := True\<rparr>;
          st1 = st\<lparr>sockets := (sockets st)(r := w),
                    activeConnections :=
                      (if r \<in> set (activeConnections st) then activeConnections st
                       else activeConnections st @ [r])\<rparr>
      in sendMessage r
           (JObj [(''type'', JStr ''CONNECTION_ESTABLISHED''), (''clientId'', JStr newClientId),
                  (''platform'', JStr p), (''capabilities'', getPlatformCapabilities p)])
           st1)"

definition handleDisconnect :: "nat \<Rightarrow> WebSocketDataServer \<Rightarrow> WebSocketDataServer" where
  "handleDisconnect r st = st\<lparr>activeConnections := removeAll r (activeConnections st)\<rparr>"

section \<open>The client\<close>

text \<open>
  \<open>WebSocketDataClient\<close>, as far as its requests go. \<open>pendingRequests\<close> holds the ids of
  the \<^verbatim>\<open>Map\<close> (each with the \<^verbatim>\<open>resolve\<close> and \<^verbatim>\<open>reject\<close> of the promise that
  \<open>sendMessage\<close> returned for it), in insertion order. What the client does to the world
  is recorded: \<open>settled\<close> lists the promises resolved or rejected, by request id,
  \<open>transmitted\<close> the envelopes handed to \<^verbatim>\<open>ws.send\<close>, \<open>timers\<close> the \<^verbatim>\<open>setTimeout\<close> calls
  and \<open>emitted\<close> the events; \<open>opened\<close> counts the transports \<open>connect\<close> created. The
  subscription callbacks and the event listeners themselves are the application's.
\<close>

datatype settlement = Resolved jsval | Rejected string

datatype timer = RequestTimer nat nat | ReconnectTimer rat

datatype event =
    Connected
  | Disconnected int
  | MaxReconnectAttemptsReached
  | Ready jsval
  | DataUpdate jsval
  | ErrorEvent string

record WebSocketDataClient =
  isConnected :: bool
  reconnectAttempts :: nat
  maxReconnectAttempts :: nat
  reconnectInterval :: nat
  pendingRequests :: "nat list"
  requestId :: nat
  settled :: "(nat \<times> settlement) list"
  transmitted :: "jsval list"
  timers :: "timer list"
  emitted :: "event list"
  opened :: nat

text \<open>\<^verbatim>\<open>ws.onopen\<close>\<close>

definition onopen :: "WebSocketDataClient \<Rightarrow> WebSocketDataClient" where
  "onopen c = c\<lparr>isConnected := True, reconnectAttempts := 0, emitted := emitted c @ [Connected]\<rparr>"

definition attemptReconnect :: "WebSocketDataClient \<Rightarrow> WebSocketDataClient" where
  "attemptReconnect c =
     (if reconnectAttempts c \<ge> maxReconnectAttempts c
      then c\<lparr>emitted := emitted c @ [MaxReconnectAttemptsReached]\<rparr>
      else c\<lparr>reconnectAttempts := reconnectAttempts c + 1,
             timers := timers c @
               [ReconnectTimer (of_nat (reconnectInterval c) * (3 / 2) ^ (reconnectAttempts c + 1 - 1))]\<rparr>)"

text \<open>\<^verbatim>\<open>ws.onclose\<close>, for the close code of the event.\<close>

definition onclose :: "int \<Rightarrow> WebSocketDataClient \<Rightarrow> WebSocketDataClient" where
  "onclose code c =
     (let c1 = c\<lparr>isConnected := False, emitted := emitted c @ [Disconnected code]\<rparr>
      in if code \<noteq> 1000 \<and> reconnectAttempts c1 < maxReconnectAttempts c1
         then attemptReconnect c1 else c1)"

text \<open>
  \<open>sendMessage\<close> returns a promise: one rejected at once when the client is not
  connected (\<open>Inl\<close> the message), the promise of the new request id otherwise.
  \<open>send_error\<close> is what \<^verbatim>\<open>ws.send\<close> throws, if it throws.
\<close>

definition client_sendMessage ::
  "int \<Rightarrow> js_error option \<Rightarrow> string \<Rightarrow> jsval \<Rightarrow> WebSocketDataClient \<Rightarrow> (string + nat) \<times> WebSocketDataClient" where
  "client_sendMessage now send_error type payload c =
     (if \<not> isConnected c then (Inl ''WebSocket not connected'', c)
      else
        (let rid = requestId c + 1;
             msg = JObj [(''type'', JStr type), (''requestId'', JNum (int rid)),
                          (''payload'', payload), (''timestamp'', JNum now)];
             c1 = c\<lparr>requestId := rid,
                     pendingRequests := pendingRequests c @ [rid],
                     timers := timers c @ [RequestTimer rid 30000]\<rparr>
         in case send_error of
              None \<Rightarrow> (Inr rid, c1\<lparr>transmitted := transmitted c1 @ [msg]\<rparr>)
            | Some e \<Rightarrow>
                (Inr rid, c1\<lparr>pendingRequests := removeAll rid (pendingRequests c1),
                              settled := settled c1 @ [(rid, Rejected (message e))]\<rparr>)))"

text \<open>The callback of the 30 s timer of request \<open>rid\<close>.\<close>

definition request_timeout :: "nat \<Rightarrow> WebSocketDataClient \<Rightarrow> WebSocketDataClient" where
  "request_timeout rid c =
     (if rid \<in> set (pendingRequests c)
      then c\<lparr>pendingRequests := removeAll rid (pendingRequests c),
             settled := settled c @ [(rid, Rejected ''Request timeout'')]\<rparr>
      else c)"

text \<open>\<^verbatim>\<open>requestId && this.pendingRequests.has(requestId)\<close>: the ids in the \<^verbatim>\<open>Map\<close> are
  numbers, found by value.\<close>

fun pending_id :: "jsval \<Rightarrow> WebSocketDataClient \<Rightarrow> nat option" where
  "pending_id (JNum n) c =
     (if n \<noteq> 0 \<and> 0 \<le> n \<and> nat n \<in> set (pendingRequests c) then Some (nat n) else None)"
| "pending_id v c = None"

text \<open>\<^verbatim>\<open>new Error(x).message\<close>: the string form of \<open>x\<close>, empty for \<^verbatim>\<open>undefined\<close>.\<close>

definition error_message :: "jsval \<Rightarrow> string outcome" where
  "error_message x = (if x = JUndefined then Inr [] else js_to_string x)"

text \<open>
  The handlers below delete the entry before they build the \<^verbatim>\<open>Error\<close>; should that
  throw, the \<^verbatim>\<open>catch\<close> of \<open>handleMessage\<close> logs it and the promise stays unsettled.
\<close>

definition client_handleError :: "jsval \<Rightarrow> jsval \<Rightarrow> WebSocketDataClient \<Rightarrow> WebSocketDataClient" where
  "client_handleError rid error c =
     (case pending_id rid c of
        Some n \<Rightarrow>
          (let c1 = c\<lparr>pendingRequests := removeAll n (pendingRequests c)\<rparr>
           in case error_message error of
                Inl e \<Rightarrow> c1
              | Inr m \<Rightarrow> c1\<lparr>settled := settled c1 @ [(n, Rejected m)]\<rparr>)
      | None \<Rightarrow>
          (case error_message error of
             Inl e \<Rightarrow> c
           | Inr m \<Rightarrow> c\<lparr>emitted := emitted c @ [ErrorEvent m]\<rparr>))"

definition client_handleResponse ::
  "jsval \<Rightarrow> jsval \<Rightarrow> jsval \<Rightarrow> jsval \<Rightarrow> WebSocketDataClient \<Rightarrow> WebSocketDataClient" where
  "client_handleResponse rid success responseData error c =
     (case pending_id rid c of
        None \<Rightarrow> c
      | Some n \<Rightarrow>
          (let c1 = c\<lparr>pendingRequests := removeAll n (pendingRequests c)\<rparr>
           in if truthy success then c1\<lparr>settled := settled c1 @ [(n, Resolved responseData)]\<rparr>
              else (case error_message (js_or error (JStr ''Request failed'')) of
                      Inl e \<Rightarrow> c1
                    | Inr m \<Rightarrow> c1\<lparr>settled := settled c1 @ [(n, Rejected m)]\<rparr>)))"

text \<open>
  \<open>handleMessage\<close> of the client: a frame that does not parse, or parses to \<^verbatim>\<open>null\<close>, is
  logged and dropped, like anything else thrown on the way. The welcome and the
  subscription update go on to the application (here: the event emitted; the callbacks
  registered for the subscription key are taken to return).
\<close>

definition client_handleMessage :: "wire \<Rightarrow> WebSocketDataClient \<Rightarrow> WebSocketDataClient" where
  "client_handleMessage data c =
     (case JSON_parse data of
        Inl e \<Rightarrow> c
      | Inr msg \<Rightarrow>
          (if nullish msg then c
           else
             (let type = js_prop msg ''type''; rid = js_prop msg ''requestId'';
                  success = js_prop msg ''success''; responseData = js_prop msg ''data'';
                  error = js_prop msg ''error''
              in if type = JStr ''CONNECTION_ESTABLISHED'' then c\<lparr>emitted := emitted c @ [Ready msg]\<rparr>
                 else if type = JStr ''SUBSCRIPTION_UPDATE'' then
                   (case template2 (js_prop msg ''collection'') '':'' (js_prop msg ''key'') of
                      Inl e \<Rightarrow> c
                    | Inr subscriptionKey \<Rightarrow> c\<lparr>emitted := emitted c @ [DataUpdate msg]\<rparr>)
                 else if type = JStr ''ERROR'' then client_handleError rid error c
                 else client_handleResponse rid success responseData error c)))"

text \<open>\<open>connect\<close>, which the callback of a reconnect timer calls, creates a new transport
  and installs the listeners above on it; it touches nothing else of the client.\<close>

definition connect :: "WebSocketDataClient \<Rightarrow> WebSocketDataClient" where
  "connect c = c\<lparr>opened := opened c + 1\<rparr>"

section \<open>States and inputs to evaluate on\<close>

text \<open>
  The adapters and the broker as their constructors leave them (every connection
  object open and still without an id), and a broker with two browser connections, \<open>client_A\<close> (connection 1, in a given
  transport state and with given subscriptions) and \<open>client_B\<close> (connection 2, open,
  no subscription).
\<close>

definition open_ws :: "string \<Rightarrow> string \<Rightarrow> string set \<Rightarrow> ws" where
  "open_ws cid p subs = \<lparr>clientId = cid, platform = p, subscriptions = subs, readyState = OPEN, isAlive = True\<rparr>"

definition new_BrowserStorageAdapter :: BrowserStorageAdapter where
  "new_BrowserStorageAdapter = \<lparr>localStorage = [], indexedDB = []\<rparr>"

definition new_ReactNativeStorageAdapter :: ReactNativeStorageAdapter where
  "new_ReactNativeStorageAdapter = \<lparr>storage = []\<rparr>"

definition new_WebSocketDataServer :: WebSocketDataServer where
  "new_WebSocketDataServer =
     \<lparr>browserAdapter = new_BrowserStorageAdapter,
      reactNativeAdapter = new_ReactNativeStorageAdapter,
      nodejsAdapter = \<lparr>dataDir = ''data'', files = []\<rparr>,
      sockets = (\<lambda>r. open_ws [] [] {}),
      activeConnections = [],
      sent = [],
      logged = []\<rparr>"

definition two_clients :: "ready_state \<Rightarrow> string set \<Rightarrow> WebSocketDataServer" where
  "two_clients rs subs =
     new_WebSocketDataServer
       \<lparr>sockets := (\<lambda>r. if r = 1 then (open_ws ''client_A'' ''browser'' subs)\<lparr>readyState := rs\<rparr>
                         else open_ws ''client_B'' ''browser'' {}),
        activeConnections := [1, 2]\<rparr>"

text \<open>
  Three open browser connections: \<open>client_A\<close> (connection 1) holds \<^verbatim>\<open>cart:u1\<close> and
  \<^verbatim>\<open>cart:*\<close>, \<open>client_B\<close> (connection 2) holds \<^verbatim>\<open>cart:u1\<close>, \<open>client_C\<close> (connection 3) holds
  \<^verbatim>\<open>cart:u2\<close>.
\<close>

definition three_clients :: WebSocketDataServer where
  "three_clients =
     new_WebSocketDataServer
       \<lparr>sockets := (\<lambda>r. if r = 1 then open_ws ''client_A'' ''browser'' {''cart:u1'', ''cart:*''}
                         else if r = 2 then open_ws ''client_B'' ''browser'' {''cart:u1''}
                         else open_ws ''client_C'' ''browser'' {''cart:u2''}),
        activeConnections := [1, 2, 3]\<rparr>"

text \<open>Payloads and envelopes, as \<^verbatim>\<open>JSON.parse\<close> returns them, and a client with one
  request pending.\<close>

definition set_cart_u1 :: jsval where
  "set_cart_u1 = JObj [(''collection'', JStr ''cart''), (''key'', JStr ''u1''), (''value'', JObj [(''total'', JNum 7)])]"

definition subscribe_a_bc :: jsval where
  "subscribe_a_bc = JObj [(''collection'', JStr ''a''), (''pattern'', JStr ''b:c'')]"

definition set_ab_c :: jsval where
  "set_ab_c = JObj [(''collection'', JStr ''a:b''), (''key'', JStr ''c''), (''value'', JNum 1)]"

definition set_a_b :: jsval where
  "set_a_b = JObj [(''collection'', JStr ''a''), (''key'', JStr ''b''), (''value'', JNum 1)]"

definition nope_message :: jsval where
  "nope_message = JObj [(''type'', JStr ''NOPE''), (''requestId'', JNum 3), (''payload'', JObj [])]"

definition unprintable_type_message :: jsval where
  "unprintable_type_message = JObj [(''type'', JObj [(''toString'', JNum 1)]), (''requestId'', JNum 3)]"

definition numeric_type_message :: jsval where
  "numeric_type_message = JObj [(''type'', JNum 1000000000000000000000), (''requestId'', JNum 4)]"

definition unsubscribe_cart_u1 :: jsval where
  "unsubscribe_cart_u1 =
     JObj [(''type'', JStr ''UNSUBSCRIBE''), (''requestId'', JNum 7),
           (''payload'', JObj [(''collection'', JStr ''cart''), (''pattern'', JStr ''u1'')])]"










text \<open>A broker with one open connection of platform \<open>react-native\<close>, a \<open>SET\<close> envelope
  without a value, and a \<open>QUERY\<close> envelope with the empty query.\<close>

definition rn_client :: WebSocketDataServer where
  "rn_client =
     new_WebSocketDataServer
       \<lparr>sockets := (\<lambda>r. open_ws ''client_R'' ''react-native'' {}), activeConnections := [1]\<rparr>"

definition set_without_value :: jsval where
  "set_without_value =
     JObj [(''type'', JStr ''SET''), (''requestId'', JNum 1),
           (''payload'', JObj [(''collection'', JStr ''c''), (''key'', JStr ''k'')])]"

definition query_all :: jsval where
  "query_all =
     JObj [(''type'', JStr ''QUERY''), (''requestId'', JNum 2),
           (''payload'', JObj [(''collection'', JStr ''c''), (''query'', JObj [])])]"

definition new_WebSocketDataClient :: WebSocketDataClient where
  "new_WebSocketDataClient =
     \<lparr>isConnected = False, reconnectAttempts = 0, maxReconnectAttempts = 10, reconnectInterval = 5000,
      pendingRequests = [], requestId = 0, settled = [], transmitted = [], timers = [], emitted = [],
      opened = 0\<rparr>"

definition client_with_pending_get :: WebSocketDataClient where
  "client_with_pending_get =
     snd (client_sendMessage 0 None ''GET''
            (JObj [(''collection'', JStr ''cart''), (''key'', JStr ''u1''), (''options'', JObj [])])
            (onopen (connect new_WebSocketDataClient)))"


section \<open>What the properties speak of\<close>

text \<open>
  \<open>recipient\<close> is the test \<open>notifySubscribers\<close> and \<open>sendMessage\<close> make between them for one
  connection; \<open>delivered st st' s\<close> lists what was handed to \<^verbatim>\<open>ws.send\<close> of connection \<open>s\<close>
  between the broker states \<open>st\<close> and \<open>st'\<close>.
\<close>

definition recipient :: "WebSocketDataServer \<Rightarrow> string \<Rightarrow> string \<Rightarrow> string \<Rightarrow> nat \<Rightarrow> bool" where
  "recipient st originClientId subscriptionKey wildcardKey r =
     (clientId (sockets st r) \<noteq> originClientId
      \<and> (subscriptionKey \<in> subscriptions (sockets st r) \<or> wildcardKey \<in> subscriptions (sockets st r))
      \<and> readyState (sockets st r) = OPEN)"

definition delivered :: "WebSocketDataServer \<Rightarrow> WebSocketDataServer \<Rightarrow> nat \<Rightarrow> wire list" where
  "delivered st st' s = map snd (filter (\<lambda>m. fst m = s) (drop (length (sent st)) (sent st')))"


text \<open>\<open>text_value\<close> is the value a stored JSON text parses to.\<close>

definition text_value :: "json_text option \<Rightarrow> jsval" where
  "text_value w = (case w of Some t \<Rightarrow> JSON_parse_text t | None \<Rightarrow> JUndefined)"


section \<open>Properties\<close>

subsection \<open>Evaluating the model\<close>

lemma dec_small: "n < 10 \<Longrightarrow> dec n = [digit_char n]"
  by (simp add: dec.simps)

lemma dec_large: "\<not> n < 10 \<Longrightarrow> dec n = dec (n div 10) @ [digit_char (n mod 10)]"
  by (subst dec.simps) simp

lemma expo_small: "a < 2 ^ 53 \<Longrightarrow> expo a = 0"
  by (simp add: expo.simps)

lemma expo_large: "\<not> a < 2 ^ 53 \<Longrightarrow> expo a = Suc (expo (a div 2))"
  by (subst expo.simps) simp

lemma shortest_done: "p \<le> 1 \<Longrightarrow> shortest d p = d"
  by (simp add: shortest.simps)

lemma shortest_step:
  "\<not> p \<le> 1 \<Longrightarrow>
   shortest d p =
     (if to_double (d div p * p) = d \<and> to_double (d div p * p + p) = d then
        (if d - d div p * p < d div p * p + p - d then d div p * p
         else if d div p * p + p - d < d - d div p * p then d div p * p + p
         else if even (d div p) then d div p * p else d div p * p + p)
      else if to_double (d div p * p) = d then d div p * p
      else if to_double (d div p * p + p) = d then d div p * p + p
      else shortest d (p div 10))"
  by (subst shortest.simps) (simp add: Let_def)

lemmas number_defs =
  expo_small expo_large to_double_def shortest_done shortest_step exponent_form_def Let_def

lemmas js_defs =
  dec_small dec_large digit_char_def nat_to_string_def num_to_string_def array_index_def is_digit_def
  str_to_nat_def inherited_def object_prototype_names_def array_inherited_def array_prototype_names_def
  obj_read_def nullish_def quoted_def cannot_read_def js_get_def js_or_def
  object_entries_def obj_define_def new_object_def object_read_def obj_assign_def obj_delete_def
  key_spread_def JSON_stringify_def JSON_parse_def JSON_parse_stored_def starts_with_def template2_def
  matches_def

lemmas adapter_defs =
  collection_or_empty_def store_collection_def select_storage_def put_storage_def
  browser_get_def browser_set_def browser_delete_def browser_query_def
  rn_get_def rn_set_def rn_delete_def rn_query_def
  file_name_def getFilePath_def nodejs_get_def nodejs_set_def nodejs_delete_def nodejs_query_def

lemmas server_defs =
  storageAdapters_get_def handler_names_def sendMessage_def default_to_def cannot_destructure_def
  no_adapter_def adapter_get_def adapter_set_def adapter_delete_def adapter_query_def
  subscription_update_def notify_one_def notifySubscribers_def
  handleGet_def handleSet_def handleDelete_def handleQuery_def handlePing_def
  handleSubscribe_def handleUnsubscribe_def plain_handler_def
  response_def error_envelope_def try_block_def catch_block_def handleMessage_def

lemma handler_plain: "t \<noteq> ''BATCH'' \<Longrightarrow> handler now t payload ad r st = plain_handler now t payload ad r st"
  by (simp add: handler.simps)

lemmas fixture_defs = open_ws_def new_BrowserStorageAdapter_def new_ReactNativeStorageAdapter_def
  new_WebSocketDataServer_def two_clients_def


lemmas client_defs = new_WebSocketDataClient_def client_with_pending_get_def onopen_def connect_def
  onclose_def attemptReconnect_def client_sendMessage_def request_timeout_def


subsection \<open>Round trip through an adapter\<close>

text \<open>
  C2: \<open>SET(c,k,v)\<close> then \<open>GET(c,k)\<close> on the same adapter with the same options returns
  \<open>v\<close>, and \<open>DELETE(c,k)\<close> then \<open>GET(c,k)\<close> returns null. The browser adapter reads with
  \<^verbatim>\<open>collectionData[key] || null\<close>, so a stored value that is falsy (\<open>0\<close>, \<open>false\<close>, the empty
  string) is read back as null: after \<open>SET(counters, visits, 0)\<close> its \<open>GET\<close> answers null,
  where the React Native adapter, which tests the JSON text it stored, answers \<open>0\<close>.
\<close>

theorem browser_get_after_set_zero:
  "browser_get
     (snd (browser_set now new_BrowserStorageAdapter (JStr ''counters'') (JStr ''visits'') (JNum 0) (JObj [])))
     (JStr ''counters'') (JStr ''visits'') (JObj []) = Inr JNull
   \<and> rn_get
     (snd (rn_set now new_ReactNativeStorageAdapter (JStr ''counters'') (JStr ''visits'') (JNum 0) (JObj [])))
     (JStr ''counters'') (JStr ''visits'') (JObj []) = Inr (JNum 0)"
  by (simp add: js_defs adapter_defs new_BrowserStorageAdapter_def new_ReactNativeStorageAdapter_def)

text \<open>For the values that are truthy, and for a deleted key, the browser adapter does
  return what the round trip promises (the key not being a member of
  \<^verbatim>\<open>Object.prototype\<close>, which a read of an absent key would find, and the collection
  object still having that prototype).\<close>

lemma map_get_map_set: "map_get m c \<noteq> None \<Longrightarrow> map_get (map_set c d m) c = Some d"
  by (induction m) auto

lemma map_get_append_new: "map_get m c = None \<Longrightarrow> strict_eq c c \<Longrightarrow> map_get (m @ [(c, d)]) c = Some d"
  by (induction m) (auto split: if_splits)

lemma map_get_store_collection: "strict_eq c c \<Longrightarrow> map_get (store_collection c d m) c = Some d"
  by (simp add: store_collection_def map_get_map_set map_get_append_new)

lemma select_put_storage: "select_storage (put_storage a b m) b = m"
  by (simp add: select_storage_def put_storage_def)

lemma map_of_insert_index: "k \<notin> fst ` set ps \<Longrightarrow> map_of (insert_index n k v ps) k = Some v"
  by (induction ps) (auto split: option.splits)

lemma map_of_obj_define: "map_of (obj_define k v ps) k = Some v"
proof (cases "k \<in> fst ` set ps")
  case True
  then show ?thesis by (simp add: obj_define_def update_Some_unfold)
next
  case False
  then have "map_of ps k = None" by (simp add: map_of_eq_None_iff)
  with False show ?thesis
    by (simp add: obj_define_def map_of_insert_index map_add_def split: option.splits)
qed

lemma object_read_obj_assign: "k \<noteq> ''__proto__'' \<Longrightarrow> object_read (obj_assign k v obj) k = v"
  by (simp add: object_read_def obj_assign_def map_of_obj_define)

lemma map_of_filter_other: "map_of (filter (\<lambda>p. fst p \<noteq> k) ps) k = None"
  by (induction ps) auto

lemma object_read_obj_delete:
  "proto obj = JNative ''__proto__'' \<Longrightarrow> k \<noteq> ''__proto__'' \<Longrightarrow> object_read (obj_delete k obj) k = inherited k"
  by (simp add: object_read_def obj_delete_def map_of_filter_other)

lemma browser_get_after_set:
  assumes "js_to_string key = Inr k" and "k \<noteq> ''__proto__''" and "truthy v" and "\<not> nullish options"
  shows "browser_get (snd (browser_set now a (JStr c) key v options)) (JStr c) key options = Inr v"
  using assms
  by (simp add: browser_get_def browser_set_def js_get_def Let_def select_put_storage
      collection_or_empty_def map_get_store_collection object_read_obj_assign js_or_def)

lemma browser_get_after_delete:
  assumes "js_to_string key = Inr k" and "k \<notin> set object_prototype_names" and "\<not> nullish options"
    and "proto (collection_or_empty (select_storage a (truthy (js_prop options ''useIndexedDB''))) (JStr c)) =
           JNative ''__proto__''"
  shows "browser_get (snd (browser_delete a (JStr c) key options)) (JStr c) key options = Inr JNull"
proof -
  from assms(2) have k: "k \<noteq> ''__proto__''" and i: "inherited k = JUndefined"
    by (auto simp: object_prototype_names_def inherited_def)
  show ?thesis
  proof (cases "map_get (select_storage a (truthy (js_prop options ''useIndexedDB''))) (JStr c)")
    case None
    with assms(1,3) k i show ?thesis
      by (simp add: browser_get_def browser_delete_def js_get_def Let_def collection_or_empty_def
          object_read_def new_object_def js_or_def)
  next
    case (Some d)
    with assms(4) have "proto d = JNative ''__proto__''" by (simp add: collection_or_empty_def)
    with Some assms(1,3) k i show ?thesis
      by (simp add: browser_get_def browser_delete_def js_get_def Let_def select_put_storage
          collection_or_empty_def map_get_map_set object_read_obj_delete js_or_def)
  qed
qed

text \<open>The React Native adapter returns every value that has a JSON text, as that text
  parses.\<close>

lemma rn_get_after_set:
  assumes "template2 collection '':'' key = Inr fullKey" and "\<not> unserializable v"
  shows "rn_get (snd (rn_set now a collection key v options)) collection key options' = Inr (json_clean v)"
  using assms by (simp add: rn_get_def rn_set_def JSON_stringify_def update_conv')


subsection \<open>Capabilities\<close>

text \<open>
  C8: the capability list advertised on welcome is the fixed table: \<open>browser\<close>,
  \<open>react-native\<close> and \<open>nodejs\<close> have their three entries, and any other platform string
  has \<open>[memory]\<close>. The table is an object literal read with \<^verbatim>\<open>capabilities[platform]\<close>, so
  a platform string that names a member of \<^verbatim>\<open>Object.prototype\<close> (the \<^verbatim>\<open>x-platform\<close> header
  carries any string) finds that member instead of falling through to \<open>[memory]\<close>.
\<close>

theorem getPlatformCapabilities_inherited_name:
  "getPlatformCapabilities ''constructor'' = JNative ''constructor''
   \<and> getPlatformCapabilities ''constructor'' \<noteq> JArr [JStr ''memory'']"
  by (simp add: getPlatformCapabilities_def capabilities_def js_defs)

lemma getPlatformCapabilities_table:
  "getPlatformCapabilities ''browser'' = JArr [JStr ''localStorage'', JStr ''indexedDB'', JStr ''sessionStorage'']"
  "getPlatformCapabilities ''react-native'' = JArr [JStr ''asyncStorage'', JStr ''sqlite'', JStr ''secureStorage'']"
  "getPlatformCapabilities ''nodejs'' = JArr [JStr ''filesystem'', JStr ''sqlite'', JStr ''memory'']"
  by (simp_all add: getPlatformCapabilities_def capabilities_def js_defs)

lemma getPlatformCapabilities_other:
  assumes "p \<notin> {''browser'', ''react-native'', ''nodejs''}" and "p \<notin> set object_prototype_names"
  shows "getPlatformCapabilities p = JArr [JStr ''memory'']"
  using assms by (simp add: getPlatformCapabilities_def capabilities_def obj_read_def inherited_def js_or_def)


subsection \<open>A frame that is not JSON\<close>

text \<open>
  C4: for a frame that is not valid JSON the broker logs and drops the frame, the
  connection stays open, and neither an \<open>ERROR\<close> envelope nor an exception leaves
  \<open>handleMessage\<close>. The \<^verbatim>\<open>catch\<close> block logs the \<open>SyntaxError\<close> and then parses the same
  frame again to read its \<^verbatim>\<open>requestId\<close>: the second \<open>SyntaxError\<close> leaves the handler,
  before anything is sent.
\<close>

theorem handleMessage_malformed_frame:
  "handleMessage now r None st =
     (Some (SyntaxError ''Unexpected token in JSON''),
      st\<lparr>logged := logged st @ [SyntaxError ''Unexpected token in JSON'']\<rparr>)"
  by (simp add: handleMessage_def try_block_def catch_block_def JSON_parse_def)


subsection \<open>Fan-out\<close>

lemma notify_one_sent:
  "notify_one now c k op v origin sk wk st r =
     st\<lparr>sent := sent st @ (if recipient st origin sk wk r then [(r, JSON_stringify (subscription_update now c k op v))] else [])\<rparr>"
  by (simp add: notify_one_def recipient_def sendMessage_def)

lemma recipient_sent_update [simp]: "recipient (st\<lparr>sent := x\<rparr>) origin sk wk = recipient st origin sk wk"
  by (rule ext) (simp add: recipient_def)

lemma foldl_notify_one:
  "foldl (notify_one now c k op v origin sk wk) st rs =
     st\<lparr>sent := sent st @ map (\<lambda>r. (r, JSON_stringify (subscription_update now c k op v)))
                               (filter (recipient st origin sk wk) rs)\<rparr>"
proof (induction rs arbitrary: st)
  case Nil
  show ?case by simp
next
  case (Cons r rs)
  define st1 where "st1 = notify_one now c k op v origin sk wk st r"
  have step: "st1 = st\<lparr>sent := sent st @
      (if recipient st origin sk wk r then [(r, JSON_stringify (subscription_update now c k op v))] else [])\<rparr>"
    unfolding st1_def by (rule notify_one_sent)
  have "foldl (notify_one now c k op v origin sk wk) st (r # rs)
      = foldl (notify_one now c k op v origin sk wk) st1 rs"
    by (simp add: st1_def)
  also have "\<dots> = st1\<lparr>sent := sent st1 @ map (\<lambda>r. (r, JSON_stringify (subscription_update now c k op v)))
                               (filter (recipient st1 origin sk wk) rs)\<rparr>"
    by (rule Cons.IH)
  also have "\<dots> = st\<lparr>sent := sent st @ map (\<lambda>r. (r, JSON_stringify (subscription_update now c k op v)))
                               (filter (recipient st origin sk wk) (r # rs))\<rparr>"
    by (simp add: step)
  finally show ?case .
qed

lemma notifySubscribers_sent:
  assumes "js_to_string collection = Inr c" and "js_to_string key = Inr k"
  shows "notifySubscribers now collection key op v origin st =
     (None, st\<lparr>sent := sent st @ map (\<lambda>r. (r, JSON_stringify (subscription_update now collection key op v)))
                 (filter (recipient st origin (c @ '':'' @ k) (c @ '':*'')) (activeConnections st))\<rparr>)"
  using assms by (simp add: notifySubscribers_def template2_def foldl_notify_one)

lemma filter_fst_map:
  "distinct rs \<Longrightarrow> filter (\<lambda>m. fst m = s) (map (\<lambda>r. (r, e)) (filter P rs)) = (if s \<in> set rs \<and> P s then [(s, e)] else [])"
proof (induction rs)
  case Nil
  show ?case by simp
next
  case (Cons r rs)
  then show ?case by (auto simp: filter_empty_conv)
qed

text \<open>An adapter call leaves the connections and what was sent alone.\<close>

lemma adapter_set_frame:
  assumes "adapter_set now ad st collection key v options = (res, st1)"
  shows "sockets st1 = sockets st \<and> activeConnections st1 = activeConnections st \<and> sent st1 = sent st"
  using assms by (auto simp: adapter_set_def split: option.splits adapter.splits prod.splits)

lemma adapter_delete_frame:
  assumes "adapter_delete ad st collection key options = (res, st1)"
  shows "sockets st1 = sockets st \<and> activeConnections st1 = activeConnections st \<and> sent st1 = sent st"
  using assms by (auto simp: adapter_delete_def split: option.splits adapter.splits prod.splits)

lemma delivered_notifySubscribers:
  assumes "js_to_string collection = Inr c" and "js_to_string key = Inr k"
    and "distinct (activeConnections st1)" and "sent st1 = sent st"
  shows "delivered st (snd (notifySubscribers now collection key op v origin st1)) s =
          (if s \<in> set (activeConnections st1) \<and> recipient st1 origin (c @ '':'' @ k) (c @ '':*'') s
           then [JSON_stringify (subscription_update now collection key op v)] else [])"
  using assms by (simp add: delivered_def notifySubscribers_sent filter_fst_map)

lemma handleSet_delivered:
  assumes ok: "handleSet now payload ad r st = (Inr result, st')"
    and c: "js_to_string (js_prop payload ''collection'') = Inr c"
    and k: "js_to_string (js_prop payload ''key'') = Inr k"
    and d: "distinct (activeConnections st)"
  shows "delivered st st' s =
          (if s \<in> set (activeConnections st) \<and> recipient st (clientId (sockets st r)) (c @ '':'' @ k) (c @ '':*'') s
           then [JSON_stringify (subscription_update now (js_prop payload ''collection'') (js_prop payload ''key'')
                   ''SET'' (js_prop payload ''value''))]
           else [])"
proof -
  from ok have nn: "\<not> nullish payload" by (auto simp: handleSet_def split: if_splits)
  obtain res st1 where a: "adapter_set now ad st (js_prop payload ''collection'') (js_prop payload ''key'')
      (js_prop payload ''value'') (default_to (JObj []) (js_prop payload ''options'')) = (res, st1)"
    by (cases "adapter_set now ad st (js_prop payload ''collection'') (js_prop payload ''key'')
      (js_prop payload ''value'') (default_to (JObj []) (js_prop payload ''options''))") auto
  note fr = adapter_set_frame [OF a]
  from ok nn a have st': "st' = snd (notifySubscribers now (js_prop payload ''collection'') (js_prop payload ''key'')
      ''SET'' (js_prop payload ''value'') (clientId (sockets st1 r)) st1)"
    by (auto simp: handleSet_def Let_def split: sum.splits prod.splits option.splits)
  have "recipient st1 = recipient st" by (intro ext) (simp add: recipient_def fr)
  with delivered_notifySubscribers [OF c k, of st1 st now "''SET''" "js_prop payload ''value''" "clientId (sockets st1 r)" s]
    fr d st' show ?thesis by simp
qed

lemma handleDelete_delivered:
  assumes ok: "handleDelete now payload ad r st = (Inr result, st')"
    and c: "js_to_string (js_prop payload ''collection'') = Inr c"
    and k: "js_to_string (js_prop payload ''key'') = Inr k"
    and d: "distinct (activeConnections st)"
  shows "delivered st st' s =
          (if s \<in> set (activeConnections st) \<and> recipient st (clientId (sockets st r)) (c @ '':'' @ k) (c @ '':*'') s
           then [JSON_stringify (subscription_update now (js_prop payload ''collection'') (js_prop payload ''key'')
                   ''DELETE'' JNull)]
           else [])"
proof -
  from ok have nn: "\<not> nullish payload" by (auto simp: handleDelete_def split: if_splits)
  obtain res st1 where a: "adapter_delete ad st (js_prop payload ''collection'') (js_prop payload ''key'')
      (default_to (JObj []) (js_prop payload ''options'')) = (res, st1)"
    by (cases "adapter_delete ad st (js_prop payload ''collection'') (js_prop payload ''key'')
      (default_to (JObj []) (js_prop payload ''options''))") auto
  note fr = adapter_delete_frame [OF a]
  from ok nn a have st': "st' = snd (notifySubscribers now (js_prop payload ''collection'') (js_prop payload ''key'')
      ''DELETE'' JNull (clientId (sockets st1 r)) st1)"
    by (auto simp: handleDelete_def Let_def split: sum.splits prod.splits option.splits)
  have "recipient st1 = recipient st" by (intro ext) (simp add: recipient_def fr)
  with delivered_notifySubscribers [OF c k, of st1 st now "''DELETE''" JNull "clientId (sockets st1 r)" s]
    fr d st' show ?thesis by simp
qed

lemma notifySubscribers_prefix:
  "take (length (sent st)) (sent (snd (notifySubscribers now collection key op v origin st))) = sent st"
  by (simp add: notifySubscribers_def foldl_notify_one split: sum.splits)

lemma handleSet_sent:
  assumes "handleSet now payload ad r st = (res, st')"
  shows "take (length (sent st)) (sent st') = sent st"
proof (cases "nullish payload")
  case True
  with assms show ?thesis by (simp add: handleSet_def)
next
  case False
  obtain res1 st1 where a: "adapter_set now ad st (js_prop payload ''collection'') (js_prop payload ''key'')
      (js_prop payload ''value'') (default_to (JObj []) (js_prop payload ''options'')) = (res1, st1)"
    by (cases "adapter_set now ad st (js_prop payload ''collection'') (js_prop payload ''key'')
      (js_prop payload ''value'') (default_to (JObj []) (js_prop payload ''options''))") auto
  note fr = adapter_set_frame [OF a]
  show ?thesis
  proof (cases res1)
    case (Inl e)
    with assms False a fr show ?thesis by (simp add: handleSet_def Let_def)
  next
    case (Inr x)
    with assms False a have "st' = snd (notifySubscribers now (js_prop payload ''collection'')
        (js_prop payload ''key'') ''SET'' (js_prop payload ''value'') (clientId (sockets st1 r)) st1)"
      by (auto simp: handleSet_def Let_def split: prod.splits option.splits)
    with notifySubscribers_prefix [of st1] fr show ?thesis by simp
  qed
qed

lemma handleDelete_sent:
  assumes "handleDelete now payload ad r st = (res, st')"
  shows "take (length (sent st)) (sent st') = sent st"
proof (cases "nullish payload")
  case True
  with assms show ?thesis by (simp add: handleDelete_def)
next
  case False
  obtain res1 st1 where a: "adapter_delete ad st (js_prop payload ''collection'') (js_prop payload ''key'')
      (default_to (JObj []) (js_prop payload ''options'')) = (res1, st1)"
    by (cases "adapter_delete ad st (js_prop payload ''collection'') (js_prop payload ''key'')
      (default_to (JObj []) (js_prop payload ''options''))") auto
  note fr = adapter_delete_frame [OF a]
  show ?thesis
  proof (cases res1)
    case (Inl e)
    with assms False a fr show ?thesis by (simp add: handleDelete_def Let_def)
  next
    case (Inr x)
    with assms False a have "st' = snd (notifySubscribers now (js_prop payload ''collection'')
        (js_prop payload ''key'') ''DELETE'' JNull (clientId (sockets st1 r)) st1)"
      by (auto simp: handleDelete_def Let_def split: prod.splits option.splits)
    with notifySubscribers_prefix [of st1] fr show ?thesis by simp
  qed
qed

text \<open>
  C1, as stated: for every mutation \<open>SET\<close> or \<open>DELETE\<close> on (collection, key) originated by a
  session O, a \<open>SUBSCRIPTION_UPDATE\<close> envelope is sent to a session S iff S holds
  (collection, key) or (collection, \<open>*\<close>) and S is not the originator. \<open>sendMessage\<close> hands
  an envelope to the transport only while \<^verbatim>\<open>ws.readyState === WebSocket.OPEN\<close>: a
  connection still among \<open>activeConnections\<close> whose transport is closing holds the
  subscription, is not the originator, and is sent nothing.
\<close>

theorem notify_skips_closing_subscriber:
  "1 \<in> set (activeConnections (two_clients CLOSING {''cart:u1''}))
   \<and> ''cart:u1'' \<in> subscriptions (sockets (two_clients CLOSING {''cart:u1''}) 1)
   \<and> clientId (sockets (two_clients CLOSING {''cart:u1''}) 1) \<noteq> clientId (sockets (two_clients CLOSING {''cart:u1''}) 2)
   \<and> fst (handler 0 ''SET'' set_cart_u1 (Some Browser) 2 (two_clients CLOSING {''cart:u1''})) =
         Inr (JObj [(''success'', JBool True), (''key'', JStr ''u1''), (''timestamp'', JNum 0)])
   \<and> delivered (two_clients CLOSING {''cart:u1''})
         (snd (handler 0 ''SET'' set_cart_u1 (Some Browser) 2 (two_clients CLOSING {''cart:u1''}))) 1 = []"
  by (simp add: handler_plain plain_handler_def server_defs js_defs adapter_defs fixture_defs
      set_cart_u1_def delivered_def)

text \<open>
  C1, amended: for every mutation \<open>SET\<close> or \<open>DELETE\<close> on (collection, key) that a connection
  \<open>r\<close> originates and its adapter acknowledges, what is sent to a connection \<open>s\<close> is
  exactly one \<open>SUBSCRIPTION_UPDATE\<close> envelope (with the collection, the key, the operation,
  the value set, or null for a \<open>DELETE\<close>, and the time) if \<open>s\<close> is among the active
  connections, its client id is not the originator's, it holds \<^verbatim>\<open>collection:key\<close> or
  \<^verbatim>\<open>collection:*\<close> in its subscription set at the moment of fan-out (one envelope also
  when it holds both), and its transport is open; and nothing otherwise. What had been
  sent before stays as it was.
\<close>

theorem mutation_fan_out:
  assumes "t = ''SET'' \<or> t = ''DELETE''"
    and "handler now t payload ad r st = (Inr result, st')"
    and "js_to_string (js_prop payload ''collection'') = Inr c"
    and "js_to_string (js_prop payload ''key'') = Inr k"
    and "distinct (activeConnections st)"
  shows "delivered st st' s =
          (if s \<in> set (activeConnections st)
              \<and> clientId (sockets st s) \<noteq> clientId (sockets st r)
              \<and> (c @ '':'' @ k \<in> subscriptions (sockets st s) \<or> c @ '':*'' \<in> subscriptions (sockets st s))
              \<and> readyState (sockets st s) = OPEN
           then [JSON_stringify
                   (JObj [(''type'', JStr ''SUBSCRIPTION_UPDATE''),
                          (''collection'', js_prop payload ''collection''),
                          (''key'', js_prop payload ''key''),
                          (''operation'', JStr t),
                          (''value'', if t = ''SET'' then js_prop payload ''value'' else JNull),
                          (''timestamp'', JNum now)])]
           else [])
         \<and> take (length (sent st)) (sent st') = sent st"
proof -
  from assms(1) show ?thesis
  proof
    assume t: "t = ''SET''"
    with assms(2) have h: "handleSet now payload ad r st = (Inr result, st')"
      by (simp add: handler_plain plain_handler_def)
    from handleSet_delivered [OF h assms(3,4,5), of s] handleSet_sent [OF h] t show ?thesis
      by (simp add: recipient_def subscription_update_def)
  next
    assume t: "t = ''DELETE''"
    with assms(2) have h: "handleDelete now payload ad r st = (Inr result, st')"
      by (simp add: handler_plain plain_handler_def)
    from handleDelete_delivered [OF h assms(3,4,5), of s] handleDelete_sent [OF h] t show ?thesis
      by (simp add: recipient_def subscription_update_def)
  qed
qed

text \<open>
  C1, at an input: \<open>client_A\<close> holds both \<^verbatim>\<open>cart:u1\<close> and \<^verbatim>\<open>cart:*\<close>, \<open>client_B\<close> holds
  \<^verbatim>\<open>cart:u1\<close> and \<open>client_C\<close> holds \<^verbatim>\<open>cart:u2\<close>; \<open>client_B\<close> sets \<^verbatim>\<open>cart/u1\<close>, then deletes
  it. Each time one envelope goes to \<open>client_A\<close>, none to \<open>client_B\<close>, the originator,
  and none to \<open>client_C\<close>.
\<close>

theorem mutation_fan_out_witness:
  "delivered three_clients (snd (handler 0 ''SET'' set_cart_u1 (Some Browser) 2 three_clients)) 1 =
     [Some (Text (JObj [(''type'', JStr ''SUBSCRIPTION_UPDATE''), (''collection'', JStr ''cart''),
                        (''key'', JStr ''u1''), (''operation'', JStr ''SET''),
                        (''value'', JObj [(''total'', JNum 7)]), (''timestamp'', JNum 0)]))]
   \<and> ''cart:u1'' \<in> subscriptions (sockets three_clients 2)
   \<and> delivered three_clients (snd (handler 0 ''SET'' set_cart_u1 (Some Browser) 2 three_clients)) 2 = []
   \<and> delivered three_clients (snd (handler 0 ''SET'' set_cart_u1 (Some Browser) 2 three_clients)) 3 = []
   \<and> delivered three_clients (snd (handler 5 ''DELETE'' set_cart_u1 (Some Browser) 2 three_clients)) 1 =
     [Some (Text (JObj [(''type'', JStr ''SUBSCRIPTION_UPDATE''), (''collection'', JStr ''cart''),
                        (''key'', JStr ''u1''), (''operation'', JStr ''DELETE''),
                        (''value'', JNull), (''timestamp'', JNum 5)]))]
   \<and> delivered three_clients (snd (handler 5 ''DELETE'' set_cart_u1 (Some Browser) 2 three_clients)) 2 = []"
proof -
  let ?st = "three_clients"
  have hs: "handler 0 ''SET'' set_cart_u1 (Some Browser) 2 ?st =
      (Inr (JObj [(''success'', JBool True), (''key'', JStr ''u1''), (''timestamp'', JNum 0)]),
       snd (handler 0 ''SET'' set_cart_u1 (Some Browser) 2 ?st))"
    by (simp add: handler_plain plain_handler_def server_defs js_defs adapter_defs fixture_defs
        three_clients_def set_cart_u1_def Let_def)
  have hd: "handler 5 ''DELETE'' set_cart_u1 (Some Browser) 2 ?st =
      (Inr (JObj [(''success'', JBool True), (''deleted'', JStr ''u1'')]),
       snd (handler 5 ''DELETE'' set_cart_u1 (Some Browser) 2 ?st))"
    by (simp add: handler_plain plain_handler_def server_defs js_defs adapter_defs fixture_defs
        three_clients_def set_cart_u1_def Let_def)
  have c: "js_to_string (js_prop set_cart_u1 ''collection'') = Inr ''cart''"
    and k: "js_to_string (js_prop set_cart_u1 ''key'') = Inr ''u1''"
    by (simp_all add: set_cart_u1_def js_defs)
  have d: "distinct (activeConnections ?st)" by (simp add: fixture_defs three_clients_def)
  have ts: "''SET'' = ''SET'' \<or> ''SET'' = ''DELETE''" and td: "''DELETE'' = ''SET'' \<or> ''DELETE'' = ''DELETE''"
    by simp_all
  from mutation_fan_out [OF ts hs c k d, of 1] mutation_fan_out [OF ts hs c k d, of 2]
    mutation_fan_out [OF ts hs c k d, of 3]
    mutation_fan_out [OF td hd c k d, of 1] mutation_fan_out [OF td hd c k d, of 2]
  show ?thesis by (simp add: fixture_defs three_clients_def set_cart_u1_def js_defs)
qed

subsection \<open>Aliasing of subscription keys\<close>

text \<open>
  C9: subscription matching is decided solely by string equality on the concatenation
  \<^verbatim>\<open>collection + ":" + pattern\<close>, so distinct (collection, pattern) pairs alias when
  names contain a colon. A connection that subscribes with (collection, pattern) holds
  the string \<^verbatim>\<open>collection:pattern\<close> from then on, and of a \<open>SET\<close> or \<open>DELETE\<close> on
  (collection', key) by another client it is sent the \<open>SUBSCRIPTION_UPDATE\<close> exactly when
  that string, or one it held before, equals \<^verbatim>\<open>collection':key\<close> or \<^verbatim>\<open>collection':*\<close>,
  whatever the two pairs were.
\<close>

theorem subscription_key_aliasing:
  assumes "handleSubscribe sub s st0 = (Inr res, st)"
    and "js_to_string (js_prop sub ''collection'') = Inr c1"
    and "js_to_string (js_prop sub ''pattern'') = Inr p1"
    and "s \<in> set (activeConnections st0)" and "distinct (activeConnections st0)"
    and "readyState (sockets st0 s) = OPEN"
    and "clientId (sockets st0 s) \<noteq> clientId (sockets st0 r)"
    and "t = ''SET'' \<or> t = ''DELETE''"
    and "handler now t payload ad r st = (Inr result, st')"
    and "js_to_string (js_prop payload ''collection'') = Inr c2"
    and "js_to_string (js_prop payload ''key'') = Inr k2"
  shows "subscriptions (sockets st s) = insert (c1 @ '':'' @ p1) (subscriptions (sockets st0 s))
       \<and> delivered st st' s =
            (if c1 @ '':'' @ p1 = c2 @ '':'' @ k2 \<or> c1 @ '':'' @ p1 = c2 @ '':*''
                \<or> c2 @ '':'' @ k2 \<in> subscriptions (sockets st0 s)
                \<or> c2 @ '':*'' \<in> subscriptions (sockets st0 s)
             then [JSON_stringify
                     (JObj [(''type'', JStr ''SUBSCRIPTION_UPDATE''),
                            (''collection'', js_prop payload ''collection''),
                            (''key'', js_prop payload ''key''),
                            (''operation'', JStr t),
                            (''value'', if t = ''SET'' then js_prop payload ''value'' else JNull),
                            (''timestamp'', JNum now)])]
             else [])"
proof -
  from assms(1) have nn: "\<not> nullish sub"
    by (auto simp: handleSubscribe_def split: if_splits)
  with assms(1,2,3) have st: "st = st0\<lparr>sockets := (sockets st0)
      (s := (sockets st0 s)\<lparr>subscriptions := insert (c1 @ '':'' @ p1) (subscriptions (sockets st0 s))\<rparr>)\<rparr>"
    by (simp add: handleSubscribe_def template2_def)
  have d: "distinct (activeConnections st)" and m: "s \<in> set (activeConnections st)"
    using assms(4,5) st by simp_all
  have ne: "r \<noteq> s" using assms(7) by auto
  have rec: "recipient st (clientId (sockets st r)) (c2 @ '':'' @ k2) (c2 @ '':*'') s =
      (c1 @ '':'' @ p1 = c2 @ '':'' @ k2 \<or> c1 @ '':'' @ p1 = c2 @ '':*''
       \<or> c2 @ '':'' @ k2 \<in> subscriptions (sockets st0 s) \<or> c2 @ '':*'' \<in> subscriptions (sockets st0 s))"
    using assms(6,7) ne by (auto simp: recipient_def st)
  have subs: "subscriptions (sockets st s) = insert (c1 @ '':'' @ p1) (subscriptions (sockets st0 s))"
    by (simp add: st)
  from assms(8) show ?thesis
  proof
    assume t: "t = ''SET''"
    with assms(9) have h: "handleSet now payload ad r st = (Inr result, st')"
      by (simp add: handler_plain plain_handler_def)
    from handleSet_delivered [OF h assms(10,11) d, of s] m rec subs t show ?thesis
      by (simp add: subscription_update_def)
  next
    assume t: "t = ''DELETE''"
    with assms(9) have h: "handleDelete now payload ad r st = (Inr result, st')"
      by (simp add: handler_plain plain_handler_def)
    from handleDelete_delivered [OF h assms(10,11) d, of s] m rec subs t show ?thesis
      by (simp add: subscription_update_def)
  qed
qed

text \<open>
  C9, at the input of the claim: \<open>client_A\<close> subscribes with collection \<open>a\<close> and pattern
  \<open>b:c\<close>; \<open>client_B\<close> sets, then deletes, key \<open>c\<close> of collection \<open>a:b\<close>, and \<open>client_A\<close> is
  sent both updates. Of a \<open>SET\<close> on key \<open>b\<close> of collection \<open>a\<close> it is sent nothing: \<open>a:b\<close> is
  another string.
\<close>

theorem subscription_key_aliasing_witness:
  "subscriptions (sockets (snd (handleSubscribe subscribe_a_bc 1 (two_clients OPEN {}))) 1) = {''a:b:c''}
   \<and> delivered (snd (handleSubscribe subscribe_a_bc 1 (two_clients OPEN {})))
     (snd (handler 0 ''SET'' set_ab_c (Some Browser) 2 (snd (handleSubscribe subscribe_a_bc 1 (two_clients OPEN {}))))) 1 =
     [Some (Text (JObj [(''type'', JStr ''SUBSCRIPTION_UPDATE''), (''collection'', JStr ''a:b''),
                        (''key'', JStr ''c''), (''operation'', JStr ''SET''),
                        (''value'', JNum 1), (''timestamp'', JNum 0)]))]
   \<and> delivered (snd (handleSubscribe subscribe_a_bc 1 (two_clients OPEN {})))
     (snd (handler 0 ''DELETE'' set_ab_c (Some Browser) 2 (snd (handleSubscribe subscribe_a_bc 1 (two_clients OPEN {}))))) 1 =
     [Some (Text (JObj [(''type'', JStr ''SUBSCRIPTION_UPDATE''), (''collection'', JStr ''a:b''),
                        (''key'', JStr ''c''), (''operation'', JStr ''DELETE''),
                        (''value'', JNull), (''timestamp'', JNum 0)]))]
   \<and> delivered (snd (handleSubscribe subscribe_a_bc 1 (two_clients OPEN {})))
     (snd (handler 0 ''SET'' set_a_b (Some Browser) 2 (snd (handleSubscribe subscribe_a_bc 1 (two_clients OPEN {}))))) 1 = []"
proof -
  let ?base = "two_clients OPEN {}"
  let ?st = "snd (handleSubscribe subscribe_a_bc 1 ?base)"
  have 1: "handleSubscribe subscribe_a_bc 1 ?base = (Inr (JObj [(''subscribed'', JStr ''a:b:c'')]), ?st)"
    by (simp add: subscribe_a_bc_def handleSubscribe_def js_defs)
  have 2: "js_to_string (js_prop subscribe_a_bc ''collection'') = Inr ''a''"
    and 3: "js_to_string (js_prop subscribe_a_bc ''pattern'') = Inr ''b:c''"
    by (simp_all add: subscribe_a_bc_def js_defs)
  have 4: "1 \<in> set (activeConnections ?base)" and 5: "distinct (activeConnections ?base)"
    and 6: "readyState (sockets ?base 1) = OPEN"
    and 7: "clientId (sockets ?base 1) \<noteq> clientId (sockets ?base 2)"
    by (simp_all add: fixture_defs)
  have ts: "''SET'' = ''SET'' \<or> ''SET'' = ''DELETE''" and td: "''DELETE'' = ''SET'' \<or> ''DELETE'' = ''DELETE''"
    by simp_all
  have hs: "handler 0 ''SET'' set_ab_c (Some Browser) 2 ?st =
      (Inr (JObj [(''success'', JBool True), (''key'', JStr ''c''), (''timestamp'', JNum 0)]),
       snd (handler 0 ''SET'' set_ab_c (Some Browser) 2 ?st))"
    by (simp add: handler_plain plain_handler_def server_defs js_defs adapter_defs fixture_defs
        subscribe_a_bc_def set_ab_c_def Let_def)
  have hd: "handler 0 ''DELETE'' set_ab_c (Some Browser) 2 ?st =
      (Inr (JObj [(''success'', JBool True), (''deleted'', JStr ''c'')]),
       snd (handler 0 ''DELETE'' set_ab_c (Some Browser) 2 ?st))"
    by (simp add: handler_plain plain_handler_def server_defs js_defs adapter_defs fixture_defs
        subscribe_a_bc_def set_ab_c_def Let_def)
  have hn: "handler 0 ''SET'' set_a_b (Some Browser) 2 ?st =
      (Inr (JObj [(''success'', JBool True), (''key'', JStr ''b''), (''timestamp'', JNum 0)]),
       snd (handler 0 ''SET'' set_a_b (Some Browser) 2 ?st))"
    by (simp add: handler_plain plain_handler_def server_defs js_defs adapter_defs fixture_defs
        subscribe_a_bc_def set_a_b_def Let_def)
  have c: "js_to_string (js_prop set_ab_c ''collection'') = Inr ''a:b''"
    and k: "js_to_string (js_prop set_ab_c ''key'') = Inr ''c''"
    and c': "js_to_string (js_prop set_a_b ''collection'') = Inr ''a''"
    and k': "js_to_string (js_prop set_a_b ''key'') = Inr ''b''"
    by (simp_all add: set_ab_c_def set_a_b_def js_defs)
  from subscription_key_aliasing [OF 1 2 3 4 5 6 7 ts hs c k]
    subscription_key_aliasing [OF 1 2 3 4 5 6 7 td hd c k]
    subscription_key_aliasing [OF 1 2 3 4 5 6 7 ts hn c' k']
  show ?thesis by (simp add: fixture_defs set_ab_c_def set_a_b_def js_defs)
qed

subsection \<open>Unknown message type\<close>

text \<open>The only exception of the string conversion.\<close>

lemma js_to_string_throws:
  "js_to_string v = Inl e \<Longrightarrow> e = TypeError ''Cannot convert object to primitive value''"
  "js_join vs = Inl e \<Longrightarrow> e = TypeError ''Cannot convert object to primitive value''"
  by (induction v and vs rule: js_to_string_js_join.induct) (auto split: if_splits sum.splits)

text \<open>
  C7, as stated: for every inbound envelope whose type has no registered handler, the
  broker replies with an \<open>ERROR\<close> envelope carrying the request's \<open>requestId\<close> and the
  message \<open>Unknown message type: X\<close>, \<open>X\<close> being the received type. Not every type that
  JSON can carry has a string form: an object with a property \<^verbatim>\<open>toString\<close> of its own,
  as in \<^verbatim>\<open>{"type": {"toString": 1}, "requestId": 3}\<close>, names no handler, and the template
  literal that is to write it throws. The reply is an \<open>ERROR\<close> envelope with the message
  of that \<open>TypeError\<close>.
\<close>

theorem unknown_type_without_string_form:
  "messageHandlers_get (js_prop unprintable_type_message ''type'') = None
   \<and> handleMessage 0 1 (Some (Text unprintable_type_message)) (two_clients OPEN {}) =
       (None,
        (two_clients OPEN {})
          \<lparr>logged := [TypeError ''Cannot convert object to primitive value''],
           sent := [(1, Some (Text (JObj [(''type'', JStr ''ERROR''), (''requestId'', JNum 3),
                                          (''success'', JBool False),
                                          (''error'', JStr ''Cannot convert object to primitive value''),
                                          (''timestamp'', JNum 0)])))]\<rparr>)
   \<and> \<not> starts_with ''Cannot convert object to primitive value'' ''Unknown message type: ''"
  by (simp add: unprintable_type_message_def server_defs js_defs fixture_defs Let_def)

text \<open>
  C7, amended: for every inbound envelope whose type has no registered handler, the
  broker replies on the (open) connection with an \<open>ERROR\<close> envelope carrying the
  request's \<open>requestId\<close>; its message is \<open>Unknown message type: X\<close>, \<open>X\<close> being the string
  form of the received type, when the type has one, and \<open>Cannot convert object to
  primitive value\<close> when it has none. The error is logged, no exception leaves the
  handler, and the connection remains open and among the active connections.
\<close>

theorem unknown_type_error_envelope:
  assumes "\<not> nullish msg"
    and "messageHandlers_get (js_prop msg ''type'') = None"
    and "readyState (sockets st r) = OPEN"
  shows "(js_to_string (js_prop msg ''type'') = Inr X \<longrightarrow>
            handleMessage now r (Some (Text msg)) st =
              (None,
               st\<lparr>logged := logged st @ [Error (''Unknown message type: '' @ X)],
                  sent := sent st @
                    [(r, JSON_stringify
                           (JObj [(''type'', JStr ''ERROR''), (''requestId'', js_prop msg ''requestId''),
                                  (''success'', JBool False),
                                  (''error'', JStr (''Unknown message type: '' @ X)),
                                  (''timestamp'', JNum now)]))]\<rparr>))
         \<and> (js_to_string (js_prop msg ''type'') = Inl e \<longrightarrow>
            handleMessage now r (Some (Text msg)) st =
              (None,
               st\<lparr>logged := logged st @ [TypeError ''Cannot convert object to primitive value''],
                  sent := sent st @
                    [(r, JSON_stringify
                           (JObj [(''type'', JStr ''ERROR''), (''requestId'', js_prop msg ''requestId''),
                                  (''success'', JBool False),
                                  (''error'', JStr ''Cannot convert object to primitive value''),
                                  (''timestamp'', JNum now)]))]\<rparr>))
         \<and> readyState (sockets (snd (handleMessage now r (Some (Text msg)) st)) r) = OPEN
         \<and> activeConnections (snd (handleMessage now r (Some (Text msg)) st)) = activeConnections st"
proof (cases "js_to_string (js_prop msg ''type'')")
  case (Inr Y)
  with assms show ?thesis
    by (simp add: handleMessage_def try_block_def catch_block_def JSON_parse_def js_get_def Let_def
        sendMessage_def error_envelope_def)
next
  case (Inl x)
  then have "x = TypeError ''Cannot convert object to primitive value''"
    by (rule js_to_string_throws)
  with Inl assms show ?thesis
    by (auto simp: handleMessage_def try_block_def catch_block_def JSON_parse_def js_get_def Let_def
        sendMessage_def error_envelope_def)
qed

text \<open>
  C7, at inputs: the envelope \<^verbatim>\<open>{type: "NOPE", requestId: 3, payload: {}}\<close>, the envelope
  without a string form above, and a type that is the number \<open>10^21\<close>.
\<close>

theorem unknown_type_error_envelope_witness:
  "handleMessage 0 1 (Some (Text nope_message)) (two_clients OPEN {}) =
     (None,
      (two_clients OPEN {})
        \<lparr>logged := [Error ''Unknown message type: NOPE''],
         sent := [(1, Some (Text (JObj [(''type'', JStr ''ERROR''), (''requestId'', JNum 3),
                                        (''success'', JBool False),
                                        (''error'', JStr ''Unknown message type: NOPE''),
                                        (''timestamp'', JNum 0)])))]\<rparr>)
   \<and> sent (snd (handleMessage 0 1 (Some (Text unprintable_type_message)) (two_clients OPEN {}))) =
        [(1, Some (Text (JObj [(''type'', JStr ''ERROR''), (''requestId'', JNum 3),
                               (''success'', JBool False),
                               (''error'', JStr ''Cannot convert object to primitive value''),
                               (''timestamp'', JNum 0)])))]
   \<and> sent (snd (handleMessage 0 1 (Some (Text numeric_type_message)) (two_clients OPEN {}))) =
        [(1, Some (Text (JObj [(''type'', JStr ''ERROR''), (''requestId'', JNum 4),
                               (''success'', JBool False),
                               (''error'', JStr ''Unknown message type: 1e+21''),
                               (''timestamp'', JNum 0)])))]"
proof -
  let ?st = "two_clients OPEN {}"
  have o: "readyState (sockets ?st 1) = OPEN" by (simp add: fixture_defs)
  have n1: "\<not> nullish nope_message"
    and n2: "messageHandlers_get (js_prop nope_message ''type'') = None"
    and n3: "js_to_string (js_prop nope_message ''type'') = Inr ''NOPE''"
    by (simp_all add: nope_message_def js_defs handler_names_def)
  have u1: "\<not> nullish unprintable_type_message"
    and u2: "messageHandlers_get (js_prop unprintable_type_message ''type'') = None"
    and u3: "js_to_string (js_prop unprintable_type_message ''type'') =
               Inl (TypeError ''Cannot convert object to primitive value'')"
    by (simp_all add: unprintable_type_message_def js_defs)
  have m1: "\<not> nullish numeric_type_message"
    and m2: "messageHandlers_get (js_prop numeric_type_message ''type'') = None"
    by (simp_all add: numeric_type_message_def js_defs)
  have m3: "js_to_string (js_prop numeric_type_message ''type'') = Inr ''1e+21''"
    by (simp add: numeric_type_message_def js_defs number_defs)
  from unknown_type_error_envelope [OF n1 n2 o, where X = "''NOPE''" and now = 0] n3
  have a: "handleMessage 0 1 (Some (Text nope_message)) ?st =
     (None,
      ?st\<lparr>logged := [Error ''Unknown message type: NOPE''],
         sent := [(1, Some (Text (JObj [(''type'', JStr ''ERROR''), (''requestId'', JNum 3),
                                        (''success'', JBool False),
                                        (''error'', JStr ''Unknown message type: NOPE''),
                                        (''timestamp'', JNum 0)])))]\<rparr>)"
    by (simp add: nope_message_def js_defs fixture_defs)
  from unknown_type_error_envelope [OF u1 u2 o, where e = "TypeError ''Cannot convert object to primitive value''" and now = 0] u3
  have b: "sent (snd (handleMessage 0 1 (Some (Text unprintable_type_message)) ?st)) =
        [(1, Some (Text (JObj [(''type'', JStr ''ERROR''), (''requestId'', JNum 3),
                               (''success'', JBool False),
                               (''error'', JStr ''Cannot convert object to primitive value''),
                               (''timestamp'', JNum 0)])))]"
    by (simp add: unprintable_type_message_def js_defs fixture_defs)
  from unknown_type_error_envelope [OF m1 m2 o, where X = "''1e+21''" and now = 0] m3
  have c: "sent (snd (handleMessage 0 1 (Some (Text numeric_type_message)) ?st)) =
        [(1, Some (Text (JObj [(''type'', JStr ''ERROR''), (''requestId'', JNum 4),
                               (''success'', JBool False),
                               (''error'', JStr ''Unknown message type: 1e+21''),
                               (''timestamp'', JNum 0)])))]"
    by (simp add: numeric_type_message_def js_defs fixture_defs)
  from a b c show ?thesis by simp
qed

subsection \<open>Unsubscribing what is not held\<close>

text \<open>
  C5, as stated: an \<open>UNSUBSCRIBE\<close> for a (collection, pattern) pair the session does not
  hold yields a failure response and leaves the subscription set unchanged.
  \<open>handleUnsubscribe\<close> deletes the key from the \<^verbatim>\<open>Set\<close> without looking whether it is
  there, and returns: \<open>client_A\<close>, holding nothing, unsubscribes \<^verbatim>\<open>cart/u1\<close> and is
  answered \<open>UNSUBSCRIBE_RESPONSE\<close> with \<open>success: true\<close>.
\<close>

theorem unsubscribe_not_held_succeeds:
  "''cart:u1'' \<notin> subscriptions (sockets (two_clients OPEN {}) 1)
   \<and> fst (handleMessage 0 1 (Some (Text unsubscribe_cart_u1)) (two_clients OPEN {})) = None
   \<and> sent (snd (handleMessage 0 1 (Some (Text unsubscribe_cart_u1)) (two_clients OPEN {}))) =
       [(1, Some (Text (JObj [(''type'', JStr ''UNSUBSCRIBE_RESPONSE''), (''requestId'', JNum 7),
                              (''success'', JBool True),
                              (''data'', JObj [(''unsubscribed'', JStr ''cart:u1'')]),
                              (''timestamp'', JNum 0)])))]"
  by (simp add: unsubscribe_cart_u1_def handler_plain plain_handler_def server_defs js_defs fixture_defs Let_def)

lemma handleUnsubscribe_not_held:
  assumes "\<not> nullish payload"
    and "template2 (js_prop payload ''collection'') '':'' (js_prop payload ''pattern'') = Inr key"
    and "key \<notin> subscriptions (sockets st r)"
  shows "handleUnsubscribe payload r st = (Inr (JObj [(''unsubscribed'', JStr key)]), st)"
  using assms by (simp add: handleUnsubscribe_def)

text \<open>
  C5, amended: an \<open>UNSUBSCRIBE\<close> request for a (collection, pattern) pair that the session
  does not hold in its subscription set yields a success response
  (\<open>UNSUBSCRIBE_RESPONSE\<close>, \<open>success: true\<close>, data \<^verbatim>\<open>{unsubscribed: "collection:pattern"}\<close>),
  and the session's subscription set, like the rest of the broker, is unchanged by the
  attempt.
\<close>

theorem unsubscribe_not_held:
  assumes "\<not> nullish msg"
    and "js_prop msg ''type'' = JStr ''UNSUBSCRIBE''"
    and "\<not> nullish (js_prop msg ''payload'')"
    and "template2 (js_prop (js_prop msg ''payload'') ''collection'') '':''
           (js_prop (js_prop msg ''payload'') ''pattern'') = Inr key"
    and "key \<notin> subscriptions (sockets st r)"
  shows "handleMessage now r (Some (Text msg)) st =
           (None,
            sendMessage r
              (JObj [(''type'', JStr ''UNSUBSCRIBE_RESPONSE''), (''requestId'', js_prop msg ''requestId''),
                     (''success'', JBool True),
                     (''data'', JObj [(''unsubscribed'', JStr key)]),
                     (''timestamp'', JNum now)])
              st)
         \<and> subscriptions (sockets (snd (handleMessage now r (Some (Text msg)) st)) r) =
             subscriptions (sockets st r)"
  using assms
  by (simp add: handleMessage_def try_block_def JSON_parse_def Let_def handler_names_def
      handler_plain plain_handler_def handleUnsubscribe_not_held response_def sendMessage_def)

text \<open>C5, at an input: \<open>client_A\<close> holds \<^verbatim>\<open>cart:*\<close> and unsubscribes \<^verbatim>\<open>cart/u1\<close>.\<close>

theorem unsubscribe_not_held_witness:
  "handleMessage 0 1 (Some (Text unsubscribe_cart_u1)) (two_clients OPEN {''cart:*''}) =
     (None,
      (two_clients OPEN {''cart:*''})
        \<lparr>sent := [(1, Some (Text (JObj [(''type'', JStr ''UNSUBSCRIBE_RESPONSE''), (''requestId'', JNum 7),
                                        (''success'', JBool True),
                                        (''data'', JObj [(''unsubscribed'', JStr ''cart:u1'')]),
                                        (''timestamp'', JNum 0)])))]\<rparr>)
   \<and> subscriptions (sockets (snd (handleMessage 0 1 (Some (Text unsubscribe_cart_u1)) (two_clients OPEN {''cart:*''}))) 1) =
       {''cart:*''}"
proof -
  have 1: "\<not> nullish unsubscribe_cart_u1"
    and 2: "js_prop unsubscribe_cart_u1 ''type'' = JStr ''UNSUBSCRIBE''"
    and 3: "\<not> nullish (js_prop unsubscribe_cart_u1 ''payload'')"
    and 4: "template2 (js_prop (js_prop unsubscribe_cart_u1 ''payload'') ''collection'') '':''
           (js_prop (js_prop unsubscribe_cart_u1 ''payload'') ''pattern'') = Inr ''cart:u1''"
    and 5: "''cart:u1'' \<notin> subscriptions (sockets (two_clients OPEN {''cart:*''}) 1)"
    by (simp_all add: unsubscribe_cart_u1_def js_defs fixture_defs)
  from unsubscribe_not_held [OF 1 2 3 4 5, of 0] show ?thesis
    by (simp add: unsubscribe_cart_u1_def js_defs fixture_defs sendMessage_def)
qed

subsection \<open>Batches\<close>










subsection \<open>Pending requests when the transport closes\<close>

text \<open>
  C6, as stated: every request pending when the transport closes is failed immediately
  with a disconnection error, and none is replayed after reconnect. \<^verbatim>\<open>ws.onclose\<close> sets
  \<open>isConnected\<close>, emits \<open>disconnected\<close> and schedules the reconnect; it does not touch
  \<open>pendingRequests\<close>: a \<open>GET\<close> pending when the transport closes with code 1006 is still
  pending afterwards, its promise unsettled.
\<close>

theorem onclose_leaves_request_pending:
  "pendingRequests client_with_pending_get = [1]
   \<and> pendingRequests (onclose 1006 client_with_pending_get) = [1]
   \<and> settled (onclose 1006 client_with_pending_get) = []"
  by (simp add: client_defs Let_def)

lemma onclose_frame:
  "pendingRequests (onclose code c) = pendingRequests c"
  "settled (onclose code c) = settled c"
  "transmitted (onclose code c) = transmitted c"
  by (simp_all add: onclose_def attemptReconnect_def Let_def)

text \<open>
  C6, amended: on the client, a request pending in the pending-requests table at the
  moment the transport closes is left in the table, its promise unsettled, by the close,
  by the reconnect and by the reopening; it is failed with \<open>Request timeout\<close> when its
  30 s timer fires (if no response with its id has arrived), and no pending request is
  replayed after reconnect: none of the three transmits anything.
\<close>

theorem pending_requests_across_disconnect:
  "pendingRequests (onclose code c) = pendingRequests c
   \<and> settled (onclose code c) = settled c
   \<and> transmitted (onclose code c) = transmitted c
   \<and> pendingRequests (connect c) = pendingRequests c
   \<and> settled (connect c) = settled c
   \<and> transmitted (connect c) = transmitted c
   \<and> pendingRequests (onopen c) = pendingRequests c
   \<and> settled (onopen c) = settled c
   \<and> transmitted (onopen c) = transmitted c
   \<and> (rid \<in> set (pendingRequests c) \<longrightarrow>
        settled (request_timeout rid (onclose code c)) = settled c @ [(rid, Rejected ''Request timeout'')]
        \<and> rid \<notin> set (pendingRequests (request_timeout rid (onclose code c))))"
  by (simp add: onclose_frame connect_def onopen_def request_timeout_def)

text \<open>C6, at an input: the pending \<open>GET\<close>, across a close with code 1006, the reconnect
  and the reopening; and its timer firing after the close.\<close>

theorem pending_requests_across_disconnect_witness:
  "pendingRequests (onopen (connect (onclose 1006 client_with_pending_get))) = [1]
   \<and> settled (onopen (connect (onclose 1006 client_with_pending_get))) = []
   \<and> transmitted (onopen (connect (onclose 1006 client_with_pending_get))) = transmitted client_with_pending_get
   \<and> settled (request_timeout 1 (onclose 1006 client_with_pending_get)) = [(1, Rejected ''Request timeout'')]
   \<and> pendingRequests (request_timeout 1 (onclose 1006 client_with_pending_get)) = []"
proof -
  have p: "pendingRequests client_with_pending_get = [1]" and s: "settled client_with_pending_get = []"
    by (simp_all add: client_defs Let_def)
  then have m: "1 \<in> set (pendingRequests client_with_pending_get)" by simp
  note a = pending_requests_across_disconnect [of 1006 client_with_pending_get 1]
  note b = pending_requests_across_disconnect [of 1006 "onclose 1006 client_with_pending_get" 1]
  note c = pending_requests_across_disconnect [of 1006 "connect (onclose 1006 client_with_pending_get)" 1]
  have "pendingRequests (request_timeout 1 (onclose 1006 client_with_pending_get)) = []"
    using a p by (simp add: request_timeout_def)
  with a b c p s m show ?thesis by simp
qed


subsection \<open>The empty query\<close>

text \<open>The conjunction over no fields is true, so the empty query keeps every entry it
  is asked about.\<close>

lemma matches_empty: "matches v (JObj []) = Inr True"
  by (simp add: matches_def object_entries_def nullish_def)

lemma filter_entries_empty: "filter_entries ps (JObj []) = Inr ps"
  by (induction ps) (simp_all add: matches_empty)

lemma browser_query_empty:
  assumes "\<not> nullish options"
  shows "browser_query b collection (JObj []) options =
           Inr (JArr (map (\<lambda>p. key_spread (JStr (fst p)) (snd p))
                  (own (collection_or_empty
                     (if truthy (js_prop options ''useIndexedDB'') then indexedDB b else localStorage b)
                     collection))))"
  using assms by (simp add: browser_query_def js_get_def Let_def filter_entries_empty select_storage_def)

lemma nodejs_scan_empty:
  "nodejs_scan fs prefix (JObj []) =
     map (\<lambda>f. key_spread (JStr (js_replace (js_replace (fst f) prefix []) ''.json'' [])) (text_value (snd f)))
       (filter (\<lambda>f. starts_with (fst f) prefix \<and> snd f \<noteq> None) fs)"
  by (induction fs) (auto simp: matches_empty JSON_parse_def text_value_def)

lemma rn_scan_empty:
  "list_all (\<lambda>e. starts_with (fst e) prefix \<longrightarrow> snd e \<noteq> None) es \<Longrightarrow>
   rn_scan es prefix (JObj []) =
     Inr (map (\<lambda>e. key_spread (JStr (js_replace (fst e) prefix [])) (text_value (snd e)))
            (filter (\<lambda>e. starts_with (fst e) prefix) es))"
  by (induction es) (auto simp: matches_empty JSON_parse_stored_def text_value_def)

text \<open>
  C10: for every adapter, \<open>query\<close> with an empty predicate map matches every stored entry
  of the collection and returns one \<^verbatim>\<open>{key, ...fields}\<close> record per stored key. The
  React Native adapter stores \<^verbatim>\<open>JSON.stringify(value)\<close>, which is \<^verbatim>\<open>undefined\<close> for a \<open>SET\<close>
  that carries no value; its \<open>get\<close> tests what it finds before parsing it, its \<open>query\<close>
  does not. On a \<open>react-native\<close> connection, after the acknowledged
  \<^verbatim>\<open>{type: "SET", requestId: 1, payload: {collection: "c", key: "k"}}\<close> the key is stored,
  a \<open>GET\<close> of it would answer null, and the empty query on the collection throws: the
  reply is an \<open>ERROR\<close> envelope, not the record of the key. The browser adapter, given
  the same two envelopes, returns the record \<^verbatim>\<open>{key: "k"}\<close>.
\<close>

theorem empty_query_after_set_without_value:
  "sent (snd (handleMessage 0 1 (Some (Text set_without_value)) rn_client)) =
     [(1, Some (Text (JObj [(''type'', JStr ''SET_RESPONSE''), (''requestId'', JNum 1),
                            (''success'', JBool True),
                            (''data'', JObj [(''success'', JBool True), (''key'', JStr ''c:k''),
                                             (''timestamp'', JNum 0)]),
                            (''timestamp'', JNum 0)])))]
   \<and> storage (reactNativeAdapter (snd (handleMessage 0 1 (Some (Text set_without_value)) rn_client))) =
       [(''c:k'', None)]
   \<and> rn_get (reactNativeAdapter (snd (handleMessage 0 1 (Some (Text set_without_value)) rn_client)))
        (JStr ''c'') (JStr ''k'') (JObj []) = Inr JNull
   \<and> handleMessage 1 1 (Some (Text query_all)) (snd (handleMessage 0 1 (Some (Text set_without_value)) rn_client)) =
       (None,
        (snd (handleMessage 0 1 (Some (Text set_without_value)) rn_client))
          \<lparr>logged := [SyntaxError (CHR 0x22 # ''undefined'' @ CHR 0x22 # '' is not valid JSON'')],
           sent := sent (snd (handleMessage 0 1 (Some (Text set_without_value)) rn_client)) @
             [(1, Some (Text (JObj [(''type'', JStr ''ERROR''), (''requestId'', JNum 2),
                                    (''success'', JBool False),
                                    (''error'', JStr (CHR 0x22 # ''undefined'' @ CHR 0x22 # '' is not valid JSON'')),
                                    (''timestamp'', JNum 1)])))]\<rparr>)
   \<and> sent (snd (handleMessage 1 1 (Some (Text query_all))
             (snd (handleMessage 0 1 (Some (Text set_without_value)) (two_clients OPEN {}))))) =
       [(1, Some (Text (JObj [(''type'', JStr ''SET_RESPONSE''), (''requestId'', JNum 1),
                              (''success'', JBool True),
                              (''data'', JObj [(''success'', JBool True), (''key'', JStr ''k''),
                                               (''timestamp'', JNum 0)]),
                              (''timestamp'', JNum 0)]))),
        (1, Some (Text (JObj [(''type'', JStr ''QUERY_RESPONSE''), (''requestId'', JNum 2),
                              (''success'', JBool True),
                              (''data'', JArr [JObj [(''key'', JStr ''k'')]]),
                              (''timestamp'', JNum 1)])))]"
  by (simp add: set_without_value_def query_all_def rn_client_def handler_plain plain_handler_def
      server_defs js_defs adapter_defs fixture_defs Let_def)

end
